theory Spec2Isabelle
  imports Complex_Main "HOL-Library.Word" "HOL-Library.While_Combinator"
begin

section \<open>Threads, faults and the machine state\<close>

text \<open>
  \<^verbatim>\<open>QThread::currentThread()\<close> is one of three threads in this program: the
  interactive (UI) thread, the \<^verbatim>\<open>EmuThread\<close> object's own thread, and the GS
  worker thread (\<^verbatim>\<open>GetMTGS()\<close>) that renders for it and calls back into
  \<^verbatim>\<open>Host::UpdateHostDisplay\<close>. Every function that consults the calling thread
  takes it as its first argument.
\<close>

datatype thread = UiThread | EmuThread | GsThread

text \<open>
  Modelled from the spec: the macros \<^verbatim>\<open>pxAssertRel\<close> and \<^verbatim>\<open>pxFailRel\<close>
  (common/Assertions.h) are not among the sources. A violated precondition is fatal: it
  aborts the process. A dereferenced null pointer ends the run as well. Both are results
  \<open>Inl\<close> of the model.
\<close>

datatype fault = AssertFail string | NullDeref string

text \<open>
  Modelled from the spec: the header of \<^verbatim>\<open>VMManager\<close> is not among the sources.
  MachineState is one of Initializing, Running, Paused, Stopping while a machine is
  loaded and absent (\<open>None\<close>) otherwise.
\<close>

datatype VMState = Initializing | Running | Paused | Stopping

datatype CDVD_SourceType = Iso | Disc | NoDisc

datatype GSRendererType = DX11 | OGL | VK | SW | Null

text \<open>
  \<^verbatim>\<open>VMBootParameters\<close>, with the fields the sources read and write. A \<^verbatim>\<open>float\<close>
  is only ever passed through (\<^verbatim>\<open>requestDisplaySize\<close>), never computed with;
  a \<^verbatim>\<open>qint32\<close> is a 32-bit word, read as signed by \<open>sint\<close> (slot -1 is the
  resume slot).
\<close>

record VMBootParameters =
  bp_source :: string
  bp_save_state :: string
  bp_source_type :: CDVD_SourceType
  bp_fast_boot :: "bool option"
  bp_fullscreen :: "bool option"

type_synonym float = rat
type_synonym qint32 = "32 word"

section \<open>Queued invocations and observable events\<close>

text \<open>
  One constructor for every \<^verbatim>\<open>QMetaObject::invokeMethod(..., Qt::QueuedConnection)\<close>
  of EmuThread.cpp: the slot to call on the EmuThread's own thread, with its arguments.
\<close>

datatype command =
    Q_stopInThread
  | Q_startVM VMBootParameters
  | Q_resetVM
  | Q_setVMPaused bool
  | Q_shutdownVM bool bool
  | Q_loadState string
  | Q_loadStateFromSlot qint32
  | Q_saveState string
  | Q_saveStateToSlot qint32
  | Q_toggleFullscreen
  | Q_setFullscreen bool
  | Q_applySettings
  | Q_toggleSoftwareRendering
  | Q_switchRenderer GSRendererType
  | Q_changeDisc string
  | Q_reloadPatches
  | Q_reloadInputSources
  | Q_reloadInputBindings
  | Q_requestDisplaySize float
  | Q_enumerateInputDevices
  | Q_enumerateVibrationMotors

text \<open>
  The effects that leave the modelled state: signals emitted towards the interactive
  thread, and calls into the opaque collaborators (machine core, GS thread, input
  subsystem, rendering backend, Qt widgets), in program order. A widget is named by
  the number it got when it was allocated.
\<close>

datatype qt_target = OnWidget | OnContainer

datatype signal =
    onVMStarting
  | onVMStarted
  | onVMPaused
  | onVMResumed
  | onVMStopped
  | onInputDevicesEnumerated
  | onVibrationMotorsEnumerated

datatype vm_call =
    VM_Initialize VMBootParameters
  | VM_Shutdown
  | VM_Reset
  | VM_SetPaused bool
  | VM_LoadState string
  | VM_LoadStateFromSlot qint32
  | VM_SaveState string
  | VM_SaveStateToSlot qint32
  | VM_ApplySettings
  | VM_ChangeDisc string
  | VM_ReloadPatches bool
  | VM_RequestDisplaySize float

datatype gs_call =
    GS_UpdateDisplayWindow
  | GS_WaitGS
  | GS_ToggleSoftwareRendering
  | GS_SwitchRenderer GSRendererType

datatype im_call =
    IM_ReloadSources
  | IM_ReloadBindings
  | IM_EnumerateDevices
  | IM_EnumerateMotors

datatype hd_call =
    HD_DoneRenderContextCurrent
  | HD_MakeRenderContextCurrent thread
  | HD_DestroyRenderSurface
  | HD_ChangeRenderWindow nat
  | HD_SetFullscreen bool

datatype qt_call =
    Qt_QThread_start
  | Qt_semaphore_acquire
  | Qt_moveToThread thread
  | Qt_connectVMThreadSignals
  | Qt_newDisplayContainer
  | Qt_newDisplayWidget nat
  | Qt_deleteDisplayWidget nat
  | Qt_deleteDisplayContainer
  | Qt_removeDisplayWidget
  | Qt_setWindowTitle qt_target
  | Qt_setWindowIcon qt_target
  | Qt_showFullScreen qt_target
  | Qt_showNormal qt_target
  | Qt_restoreGeometry qt_target string
  | Qt_resize qt_target nat nat
  | Qt_insertWidget nat
  | Qt_removeWidget nat
  | Qt_setFocus_display
  | Qt_setFocus_game_list
  | Qt_actionFullscreen_setChecked bool
  | Qt_MessageBox_critical string
  | Qt_connectDisplaySignals nat

text \<open>
  Modelled from the spec: the failure notification of a failed start is emitted by
  code that is not among the sources; it is the event \<open>Notify_StartFailed\<close>.
\<close>

datatype event =
    Signal signal
  | Notify_StartFailed
  | VM vm_call
  | GS gs_call
  | IM im_call
  | HD hd_call
  | Qt qt_call
  | Console_Error string
  | OSD_Message string
  | EventLoop_quit
  | App_processEvents
  | ImGui_WindowResized

section \<open>The state of the program\<close>

text \<open>
  Modelled from the spec: class \<^verbatim>\<open>HostDisplay\<close> (the rendering backend) is not among
  the sources. It offers \<open>makeContextCurrent() -> bool\<close>, \<open>releaseContext()\<close>,
  \<open>destroySurface()\<close> and the re-creation of the surface on a window. The record holds
  the thread on which the render context is current, whether a surface exists, whether
  exclusive fullscreen is on, and the outcomes of the calls that can fail.
\<close>

record HostDisplay =
  hd_context :: "thread option"
  hd_has_surface :: bool
  hd_IsFullscreen :: bool
  hd_SupportsFullscreen :: bool
  hd_MakeRenderContextCurrent_ok :: bool
  hd_ChangeRenderWindow_ok :: bool
  hd_ParseFullscreenMode_ok :: bool
  hd_SetFullscreen_ok :: bool

text \<open>
  A \<^verbatim>\<open>DisplayWidget\<close>: its identity, its Qt parent (\<open>None\<close> for a top-level window),
  \<^verbatim>\<open>isFullScreen()\<close> and whether \<^verbatim>\<open>getWindowInfo()\<close> has a value.
\<close>

datatype widget_parent = MainContainer | DisplayContainer

record DisplayWidget =
  w_id :: nat
  w_parent :: "widget_parent option"
  w_isFullScreen :: bool
  w_has_window_info :: bool

text \<open>
  The globals and members the functions read and write. \<open>s_state\<close> is the VMManager's
  state; \<open>vm_Initialize_ok\<close> and \<open>vm_SaveState_ok\<close> are the outcomes of the two
  machine-core calls whose result the sources test; \<open>new_widget_window_info\<close> is
  whether the platform will hand out window info for the next widget created,
  \<open>removeDisplayWidget_unparents\<close> is whether \<^verbatim>\<open>DisplayContainer::removeDisplayWidget\<close>
  (not among the sources) hands the widget back without a parent, and
  \<open>qt_saveGeometry_b64\<close> is what \<^verbatim>\<open>saveGeometry().toBase64()\<close> of the display window
  returns.
  \<open>g_emu_thread\<close> and \<open>m_display_container\<close> say whether the pointer is non-null, and
  \<open>container_isFullScreen\<close> is \<^verbatim>\<open>isFullScreen()\<close> of the container while there is one;
  the timer is \<open>None\<close> for a null pointer and \<open>Some (isActive())\<close> otherwise.
\<close>

record sys =
  s_state :: "VMState option"
  vm_Initialize_ok :: bool
  vm_SaveState_ok :: bool
  g_emu_thread :: bool
  thread_isRunning :: bool
  m_ui_thread :: thread
  m_shutdown_flag :: bool
  m_is_fullscreen :: bool
  m_is_rendering_to_main :: bool
  m_background_controller_polling_timer :: "bool option"
  emu_queue :: "command list"
  s_host_display :: "HostDisplay option"
  m_display_widget :: "DisplayWidget option"
  m_display_container :: bool
  container_isFullScreen :: bool
  mainContainer_currentIndex :: nat
  m_vm_valid :: bool
  m_vm_paused :: bool
  m_was_focused_on_container_switch :: bool
  next_widget_id :: nat
  new_widget_window_info :: bool
  removeDisplayWidget_unparents :: bool
  qt_saveGeometry_b64 :: string
  base_bool_settings :: "string \<times> string \<rightharpoonup> bool"
  base_string_settings :: "string \<times> string \<rightharpoonup> string"
  trace :: "event list"

definition emit :: "event \<Rightarrow> sys \<Rightarrow> sys" where
  "emit e s = s\<lparr>trace := trace s @ [e]\<rparr>"

definition emits :: "event list \<Rightarrow> sys \<Rightarrow> sys" where
  "emits es s = s\<lparr>trace := trace s @ es\<rparr>"

definition GetBaseBoolSettingValue :: "sys \<Rightarrow> string \<Rightarrow> string \<Rightarrow> bool \<Rightarrow> bool" where
  "GetBaseBoolSettingValue s section key default_value =
     (case base_bool_settings s (section, key) of None \<Rightarrow> default_value | Some v \<Rightarrow> v)"

definition GetBaseStringSettingValue :: "sys \<Rightarrow> string \<Rightarrow> string \<Rightarrow> string \<Rightarrow> string" where
  "GetBaseStringSettingValue s section key default_value =
     (case base_string_settings s (section, key) of None \<Rightarrow> default_value | Some v \<Rightarrow> v)"

definition SetBaseStringSettingValue :: "string \<Rightarrow> string \<Rightarrow> string \<Rightarrow> sys \<Rightarrow> sys" where
  "SetBaseStringSettingValue section key v s =
     s\<lparr>base_string_settings := (base_string_settings s)((section, key) \<mapsto> v)\<rparr>"

section \<open>The machine core as the execution thread sees it\<close>

text \<open>
  Modelled from the spec: \<^verbatim>\<open>VMManager\<close> is not among the sources. A machine is
  loaded exactly while a MachineState is present; \<open>currentState()\<close> reads it and
  \<open>requestStateChange(target)\<close> stores the target.
\<close>

definition HasValidVM :: "sys \<Rightarrow> bool" where
  "HasValidVM s = (s_state s \<noteq> None)"

definition GetState :: "sys \<Rightarrow> VMState option" where
  "GetState s = s_state s"

definition SetState :: "VMState \<Rightarrow> sys \<Rightarrow> sys" where
  "SetState st s = s\<lparr>s_state := Some st\<rparr>"

text \<open>
  Modelled from the spec: \<^verbatim>\<open>VMManager::Initialize\<close> is not among the sources.
  It allocates the machine's resources; on success the machine is loaded and
  Initializing (the caller then moves it to Running); a failure aborts with no state
  change (no machine loaded) and emits one failure notification.
\<close>

definition VMManager_Initialize :: "VMBootParameters \<Rightarrow> sys \<Rightarrow> bool \<times> sys" where
  "VMManager_Initialize boot_params s =
     (let s1 = emit (VM (VM_Initialize boot_params)) s
      in if vm_Initialize_ok s1 then (True, s1\<lparr>s_state := Some Initializing\<rparr>)
         else (False, emit Notify_StartFailed s1))"

text \<open>
  Modelled from the spec: \<^verbatim>\<open>VMManager::Shutdown\<close> is not among the sources.
  Stopping goes to absent: the teardown completes and all resources are released.
\<close>

definition VMManager_Shutdown :: "sys \<Rightarrow> sys" where
  "VMManager_Shutdown s = (emit (VM VM_Shutdown) s)\<lparr>s_state := None\<rparr>"

section \<open>EmuThread\<close>

definition isOnEmuThread :: "thread \<Rightarrow> bool" where
  "isOnEmuThread caller = (caller = EmuThread)"

text \<open>
  \<^verbatim>\<open>QMetaObject::invokeMethod(this, slot, Qt::QueuedConnection, args)\<close>: the call is
  appended to the queue of the EmuThread's event loop and the caller goes on.
\<close>

definition invokeQueued :: "command \<Rightarrow> sys \<Rightarrow> sys" where
  "invokeQueued c s = s\<lparr>emu_queue := emu_queue s @ [c]\<rparr>"

text \<open>
  \<^verbatim>\<open>QApplication::processEvents(QEventLoop::ExcludeUserInputEvents, 1)\<close> on the
  calling thread: it returns after at most one millisecond. What the rest of the
  program does to the state meanwhile is the parameter \<open>pump\<close>.
\<close>

definition processEvents1 :: "(sys \<Rightarrow> sys) \<Rightarrow> sys \<Rightarrow> sys" where
  "processEvents1 pump s = pump (emit App_processEvents s)"

text \<open>
  \<^verbatim>\<open>EmuThread::start\<close>: the new object remembers the calling thread as its UI thread, its
  thread is started, and the caller waits for the thread's start semaphore, moves the
  object to its own thread and lets the main window connect its signals.
\<close>

definition start :: "thread \<Rightarrow> sys \<Rightarrow> fault + sys" where
  "start caller s =
     (if g_emu_thread s then Inl (AssertFail ''Emu thread does not exist'')
      else
        let s1 = s\<lparr>g_emu_thread := True, m_ui_thread := caller\<rparr>;
            s2 = (emit (Qt Qt_QThread_start) s1)\<lparr>thread_isRunning := True\<rparr>
        in Inr (emits [Qt Qt_semaphore_acquire, Qt (Qt_moveToThread EmuThread),
                       Qt Qt_connectVMThreadSignals] s2))"

definition destroyVM :: "sys \<Rightarrow> sys" where
  "destroyVM s = VMManager_Shutdown s"

definition stopInThread :: "sys \<Rightarrow> sys" where
  "stopInThread s =
     (let s1 = (if HasValidVM s then destroyVM s else s);
          s2 = emit EventLoop_quit s1
      in s2\<lparr>m_shutdown_flag := True\<rparr>)"

definition stop :: "(sys \<Rightarrow> sys) \<Rightarrow> thread \<Rightarrow> sys \<Rightarrow> (fault + sys) option" where
  "stop pump caller s =
     (if \<not> g_emu_thread s then Some (Inl (AssertFail ''Emu thread exists''))
      else if isOnEmuThread caller then Some (Inl (AssertFail ''Not called on the emu thread''))
      else map_option Inr
             (while_option thread_isRunning (processEvents1 pump) (invokeQueued Q_stopInThread s)))"

definition startVM :: "thread \<Rightarrow> VMBootParameters \<Rightarrow> sys \<Rightarrow> fault + sys" where
  "startVM caller boot_params s =
     (if \<not> isOnEmuThread caller then Inr (invokeQueued (Q_startVM boot_params) s)
      else if HasValidVM s then Inl (AssertFail ''VM is shut down'')
      else
        let s1 = emit (Signal onVMStarting) s;
            s2 = s1\<lparr>m_is_fullscreen :=
                      (case bp_fullscreen boot_params of
                         Some b \<Rightarrow> b
                       | None \<Rightarrow> GetBaseBoolSettingValue s1 ''UI'' ''StartFullscreen'' False)\<rparr>;
            s3 = s2\<lparr>m_is_rendering_to_main :=
                      (\<not> m_is_fullscreen s2 \<and>
                       GetBaseBoolSettingValue s2 ''UI'' ''RenderToMainWindow'' True)\<rparr>
        in case VMManager_Initialize boot_params s3 of
             (False, s4) \<Rightarrow> Inr s4
           | (True, s4) \<Rightarrow> Inr (emit EventLoop_quit (SetState Running s4)))"

definition resetVM :: "thread \<Rightarrow> sys \<Rightarrow> fault + sys" where
  "resetVM caller s =
     (if \<not> isOnEmuThread caller then Inr (invokeQueued Q_resetVM s)
      else Inr (emit (VM VM_Reset) s))"

definition setVMPaused :: "thread \<Rightarrow> bool \<Rightarrow> sys \<Rightarrow> fault + sys" where
  "setVMPaused caller paused s =
     (if \<not> isOnEmuThread caller then Inr (invokeQueued (Q_setVMPaused paused) s)
      else Inr (emit (VM (VM_SetPaused paused)) s))"

definition shutdownVM ::
  "(sys \<Rightarrow> sys) \<Rightarrow> thread \<Rightarrow> bool \<Rightarrow> bool \<Rightarrow> sys \<Rightarrow> (fault + sys) option" where
  "shutdownVM pump caller allow_save_to_state blocking s =
     (if \<not> isOnEmuThread caller then
        let s1 = invokeQueued (Q_shutdownVM allow_save_to_state blocking) s
        in if blocking then map_option Inr (while_option HasValidVM (processEvents1 pump) s1)
           else Some (Inr s1)
      else
        let state = GetState s
        in if state = Some Paused then Some (Inr (SetState Stopping (emit EventLoop_quit s)))
           else if state \<noteq> Some Running then Some (Inr s)
           else Some (Inr (SetState Stopping s)))"

definition loadState :: "thread \<Rightarrow> string \<Rightarrow> sys \<Rightarrow> fault + sys" where
  "loadState caller filename s =
     (if \<not> isOnEmuThread caller then Inr (invokeQueued (Q_loadState filename) s)
      else if \<not> HasValidVM s then Inr s
      else Inr (emit (VM (VM_LoadState filename)) s))"

definition loadStateFromSlot :: "thread \<Rightarrow> qint32 \<Rightarrow> sys \<Rightarrow> fault + sys" where
  "loadStateFromSlot caller slot s =
     (if \<not> isOnEmuThread caller then Inr (invokeQueued (Q_loadStateFromSlot slot) s)
      else if \<not> HasValidVM s then Inr s
      else Inr (emit (VM (VM_LoadStateFromSlot slot)) s))"

definition saveState :: "thread \<Rightarrow> string \<Rightarrow> sys \<Rightarrow> fault + sys" where
  "saveState caller filename s =
     (if \<not> isOnEmuThread caller then Inr (invokeQueued (Q_saveState filename) s)
      else if \<not> HasValidVM s then Inr s
      else
        let s1 = emit (VM (VM_SaveState filename)) s
        in if \<not> vm_SaveState_ok s1 then Inr (emit (Console_Error ''Failed to save state'') s1)
           else Inr s1)"

definition saveStateToSlot :: "thread \<Rightarrow> qint32 \<Rightarrow> sys \<Rightarrow> fault + sys" where
  "saveStateToSlot caller slot s =
     (if \<not> isOnEmuThread caller then Inr (invokeQueued (Q_saveStateToSlot slot) s)
      else if \<not> HasValidVM s then Inr s
      else Inr (emit (VM (VM_SaveStateToSlot slot)) s))"

definition setFullscreen :: "thread \<Rightarrow> bool \<Rightarrow> sys \<Rightarrow> fault + sys" where
  "setFullscreen caller fullscreen s =
     (if \<not> isOnEmuThread caller then Inr (invokeQueued (Q_setFullscreen fullscreen) s)
      else if \<not> HasValidVM s \<or> m_is_fullscreen s = fullscreen then Inr s
      else Inr (emits [GS GS_UpdateDisplayWindow, GS GS_WaitGS] (s\<lparr>m_is_fullscreen := fullscreen\<rparr>)))"

definition toggleFullscreen :: "thread \<Rightarrow> sys \<Rightarrow> fault + sys" where
  "toggleFullscreen caller s =
     (if \<not> isOnEmuThread caller then Inr (invokeQueued Q_toggleFullscreen s)
      else setFullscreen caller (\<not> m_is_fullscreen s) s)"

definition checkForSettingChanges :: "sys \<Rightarrow> sys" where
  "checkForSettingChanges s =
     (if HasValidVM s then
        let render_to_main = GetBaseBoolSettingValue s ''UI'' ''RenderToMainWindow'' True
        in if \<not> m_is_fullscreen s \<and> m_is_rendering_to_main s \<noteq> render_to_main
           then emits [GS GS_UpdateDisplayWindow, GS GS_WaitGS]
                  (s\<lparr>m_is_rendering_to_main := render_to_main\<rparr>)
           else s
      else s)"

definition applySettings :: "thread \<Rightarrow> sys \<Rightarrow> fault + sys" where
  "applySettings caller s =
     (if \<not> isOnEmuThread caller then Inr (invokeQueued Q_applySettings s)
      else Inr (emit (VM VM_ApplySettings) (checkForSettingChanges s)))"

definition toggleSoftwareRendering :: "thread \<Rightarrow> sys \<Rightarrow> fault + sys" where
  "toggleSoftwareRendering caller s =
     (if \<not> isOnEmuThread caller then Inr (invokeQueued Q_toggleSoftwareRendering s)
      else if \<not> HasValidVM s then Inr s
      else Inr (emit (GS GS_ToggleSoftwareRendering) s))"

definition switchRenderer :: "thread \<Rightarrow> GSRendererType \<Rightarrow> sys \<Rightarrow> fault + sys" where
  "switchRenderer caller renderer s =
     (if \<not> isOnEmuThread caller then Inr (invokeQueued (Q_switchRenderer renderer) s)
      else if \<not> HasValidVM s then Inr s
      else Inr (emit (GS (GS_SwitchRenderer renderer)) s))"

definition changeDisc :: "thread \<Rightarrow> string \<Rightarrow> sys \<Rightarrow> fault + sys" where
  "changeDisc caller path s =
     (if \<not> isOnEmuThread caller then Inr (invokeQueued (Q_changeDisc path) s)
      else if \<not> HasValidVM s then Inr s
      else Inr (emit (VM (VM_ChangeDisc path)) s))"

definition reloadPatches :: "thread \<Rightarrow> sys \<Rightarrow> fault + sys" where
  "reloadPatches caller s =
     (if \<not> isOnEmuThread caller then Inr (invokeQueued Q_reloadPatches s)
      else if \<not> HasValidVM s then Inr s
      else Inr (emit (VM (VM_ReloadPatches True)) s))"

definition reloadInputSources :: "thread \<Rightarrow> sys \<Rightarrow> fault + sys" where
  "reloadInputSources caller s =
     (if \<not> isOnEmuThread caller then Inr (invokeQueued Q_reloadInputSources s)
      else
        let s1 = emit (IM IM_ReloadSources) s
        in if HasValidVM s1 then Inr (emit (IM IM_ReloadBindings) s1) else Inr s1)"

definition reloadInputBindings :: "thread \<Rightarrow> sys \<Rightarrow> fault + sys" where
  "reloadInputBindings caller s =
     (if \<not> isOnEmuThread caller then Inr (invokeQueued Q_reloadInputBindings s)
      else if \<not> HasValidVM s then Inr s
      else Inr (emit (IM IM_ReloadBindings) s))"

definition requestDisplaySize :: "thread \<Rightarrow> float \<Rightarrow> sys \<Rightarrow> fault + sys" where
  "requestDisplaySize caller scale s =
     (if \<not> isOnEmuThread caller then Inr (invokeQueued (Q_requestDisplaySize scale) s)
      else if \<not> HasValidVM s then Inr s
      else Inr (emit (VM (VM_RequestDisplaySize scale)) s))"

definition enumerateInputDevices :: "thread \<Rightarrow> sys \<Rightarrow> fault + sys" where
  "enumerateInputDevices caller s =
     (if \<not> isOnEmuThread caller then Inr (invokeQueued Q_enumerateInputDevices s)
      else Inr (emits [IM IM_EnumerateDevices, Signal onInputDevicesEnumerated] s))"

definition enumerateVibrationMotors :: "thread \<Rightarrow> sys \<Rightarrow> fault + sys" where
  "enumerateVibrationMotors caller s =
     (if \<not> isOnEmuThread caller then Inr (invokeQueued Q_enumerateVibrationMotors s)
      else Inr (emits [IM IM_EnumerateMotors, Signal onVibrationMotorsEnumerated] s))"

subsection \<open>Queued delivery\<close>

text \<open>
  \<open>invoke pump t c\<close> runs, on thread \<open>t\<close>, the slot that the command \<open>c\<close> names,
  with the arguments \<open>c\<close> carries. \<open>deliver_next\<close> is one step of the EmuThread's event
  loop: it takes the first queued invocation and runs its slot on the EmuThread.
\<close>

fun invoke :: "(sys \<Rightarrow> sys) \<Rightarrow> thread \<Rightarrow> command \<Rightarrow> sys \<Rightarrow> (fault + sys) option" where
  "invoke pump t Q_stopInThread s = Some (Inr (stopInThread s))"
| "invoke pump t (Q_startVM boot_params) s = Some (startVM t boot_params s)"
| "invoke pump t Q_resetVM s = Some (resetVM t s)"
| "invoke pump t (Q_setVMPaused paused) s = Some (setVMPaused t paused s)"
| "invoke pump t (Q_shutdownVM allow_save_to_state blocking) s =
     shutdownVM pump t allow_save_to_state blocking s"
| "invoke pump t (Q_loadState filename) s = Some (loadState t filename s)"
| "invoke pump t (Q_loadStateFromSlot slot) s = Some (loadStateFromSlot t slot s)"
| "invoke pump t (Q_saveState filename) s = Some (saveState t filename s)"
| "invoke pump t (Q_saveStateToSlot slot) s = Some (saveStateToSlot t slot s)"
| "invoke pump t Q_toggleFullscreen s = Some (toggleFullscreen t s)"
| "invoke pump t (Q_setFullscreen fullscreen) s = Some (setFullscreen t fullscreen s)"
| "invoke pump t Q_applySettings s = Some (applySettings t s)"
| "invoke pump t Q_toggleSoftwareRendering s = Some (toggleSoftwareRendering t s)"
| "invoke pump t (Q_switchRenderer renderer) s = Some (switchRenderer t renderer s)"
| "invoke pump t (Q_changeDisc path) s = Some (changeDisc t path s)"
| "invoke pump t Q_reloadPatches s = Some (reloadPatches t s)"
| "invoke pump t Q_reloadInputSources s = Some (reloadInputSources t s)"
| "invoke pump t Q_reloadInputBindings s = Some (reloadInputBindings t s)"
| "invoke pump t (Q_requestDisplaySize scale) s = Some (requestDisplaySize t scale s)"
| "invoke pump t Q_enumerateInputDevices s = Some (enumerateInputDevices t s)"
| "invoke pump t Q_enumerateVibrationMotors s = Some (enumerateVibrationMotors t s)"

definition deliver_next :: "(sys \<Rightarrow> sys) \<Rightarrow> sys \<Rightarrow> (fault + sys) option" where
  "deliver_next pump s =
     (case emu_queue s of
        [] \<Rightarrow> Some (Inr s)
      | c # cs \<Rightarrow> invoke pump EmuThread c (s\<lparr>emu_queue := cs\<rparr>))"

text \<open>
  The public lifecycle operations are the slots with the thread check at their head;
  \<^verbatim>\<open>stopInThread\<close> is the private slot that only \<^verbatim>\<open>stop\<close> queues.
\<close>

definition is_public_operation :: "command \<Rightarrow> bool" where
  "is_public_operation c = (c \<noteq> Q_stopInThread)"

definition is_blocking_shutdown :: "command \<Rightarrow> bool" where
  "is_blocking_shutdown c = (case c of Q_shutdownVM _ blocking \<Rightarrow> blocking | _ \<Rightarrow> False)"

subsection \<open>The background controller poll timer and the machine's notifications\<close>

definition startBackgroundControllerPollTimer :: "sys \<Rightarrow> fault + sys" where
  "startBackgroundControllerPollTimer s =
     (case m_background_controller_polling_timer s of
        None \<Rightarrow> Inl (NullDeref ''m_background_controller_polling_timer'')
      | Some active \<Rightarrow>
          if active then Inr s
          else Inr (s\<lparr>m_background_controller_polling_timer := Some True\<rparr>))"

definition stopBackgroundControllerPollTimer :: "sys \<Rightarrow> fault + sys" where
  "stopBackgroundControllerPollTimer s =
     (case m_background_controller_polling_timer s of
        None \<Rightarrow> Inl (NullDeref ''m_background_controller_polling_timer'')
      | Some active \<Rightarrow>
          if \<not> active then Inr s
          else Inr (s\<lparr>m_background_controller_polling_timer := Some False\<rparr>))"

definition Host_OnVMStarting :: "sys \<Rightarrow> fault + sys" where
  "Host_OnVMStarting s =
     (if \<not> g_emu_thread s then Inl (NullDeref ''g_emu_thread'')
      else case stopBackgroundControllerPollTimer s of
             Inl f \<Rightarrow> Inl f
           | Inr s1 \<Rightarrow> Inr (emit (Signal onVMStarting) s1))"

definition Host_OnVMStarted :: "sys \<Rightarrow> fault + sys" where
  "Host_OnVMStarted s =
     (if \<not> g_emu_thread s then Inl (NullDeref ''g_emu_thread'')
      else Inr (emit (Signal onVMStarted) s))"

definition Host_OnVMDestroyed :: "sys \<Rightarrow> fault + sys" where
  "Host_OnVMDestroyed s =
     (if \<not> g_emu_thread s then Inl (NullDeref ''g_emu_thread'')
      else startBackgroundControllerPollTimer (emit (Signal onVMStopped) s))"

definition Host_OnVMPaused :: "sys \<Rightarrow> fault + sys" where
  "Host_OnVMPaused s =
     (if \<not> g_emu_thread s then Inl (NullDeref ''g_emu_thread'')
      else case startBackgroundControllerPollTimer s of
             Inl f \<Rightarrow> Inl f
           | Inr s1 \<Rightarrow> Inr (emit (Signal onVMPaused) s1))"

definition Host_OnVMResumed :: "sys \<Rightarrow> fault + sys" where
  "Host_OnVMResumed s =
     (if \<not> g_emu_thread s then Inl (NullDeref ''g_emu_thread'')
      else case stopBackgroundControllerPollTimer (emit EventLoop_quit s) of
             Inl f \<Rightarrow> Inl f
           | Inr s1 \<Rightarrow> Inr (emit (Signal onVMResumed) s1))"

text \<open>
  The five transition notifications the machine core delivers through \<^verbatim>\<open>Host::\<close>,
  and the poller's state after one of them.
\<close>

datatype notification = N_Starting | N_Started | N_Paused | N_Resumed | N_Destroyed

fun notify :: "notification \<Rightarrow> sys \<Rightarrow> fault + sys" where
  "notify N_Starting s = Host_OnVMStarting s"
| "notify N_Started s = Host_OnVMStarted s"
| "notify N_Paused s = Host_OnVMPaused s"
| "notify N_Resumed s = Host_OnVMResumed s"
| "notify N_Destroyed s = Host_OnVMDestroyed s"

definition poller_active :: "sys \<Rightarrow> bool" where
  "poller_active s = (m_background_controller_polling_timer s = Some True)"

section \<open>MainWindow: the display widget\<close>

text \<open>
  Modelled from the spec: the calls of \<^verbatim>\<open>HostDisplay\<close> used below are not among
  the sources. Releasing the context leaves it current on no thread, making it current
  binds it to the calling thread when it succeeds, destroying the surface leaves none,
  and \<^verbatim>\<open>ChangeRenderWindow\<close> puts a surface onto the given widget.
\<close>

definition upd_host_display :: "(HostDisplay \<Rightarrow> HostDisplay) \<Rightarrow> sys \<Rightarrow> sys" where
  "upd_host_display f s = s\<lparr>s_host_display := map_option f (s_host_display s)\<rparr>"

definition DoneRenderContextCurrent :: "sys \<Rightarrow> sys" where
  "DoneRenderContextCurrent s =
     emit (HD HD_DoneRenderContextCurrent) (upd_host_display (\<lambda>d. d\<lparr>hd_context := None\<rparr>) s)"

definition MakeRenderContextCurrent :: "thread \<Rightarrow> HostDisplay \<Rightarrow> sys \<Rightarrow> bool \<times> sys" where
  "MakeRenderContextCurrent caller d s =
     (let s1 = emit (HD (HD_MakeRenderContextCurrent caller)) s
      in if hd_MakeRenderContextCurrent_ok d
         then (True, upd_host_display (\<lambda>d. d\<lparr>hd_context := Some caller\<rparr>) s1)
         else (False, s1))"

definition DestroyRenderSurface :: "sys \<Rightarrow> sys" where
  "DestroyRenderSurface s =
     emit (HD HD_DestroyRenderSurface) (upd_host_display (\<lambda>d. d\<lparr>hd_has_surface := False\<rparr>) s)"

definition ChangeRenderWindow :: "nat \<Rightarrow> HostDisplay \<Rightarrow> sys \<Rightarrow> bool \<times> sys" where
  "ChangeRenderWindow wid d s =
     (let s1 = emit (HD (HD_ChangeRenderWindow wid)) s
      in if hd_ChangeRenderWindow_ok d
         then (True, upd_host_display (\<lambda>d. d\<lparr>hd_has_surface := True\<rparr>) s1)
         else (False, s1))"

definition SetFullscreen :: "bool \<Rightarrow> HostDisplay \<Rightarrow> sys \<Rightarrow> bool \<times> sys" where
  "SetFullscreen on d s =
     (let s1 = emit (HD (HD_SetFullscreen on)) s
      in if \<not> on then (True, upd_host_display (\<lambda>d. d\<lparr>hd_IsFullscreen := False\<rparr>) s1)
         else if hd_SetFullscreen_ok d
         then (True, upd_host_display (\<lambda>d. d\<lparr>hd_IsFullscreen := True\<rparr>) s1)
         else (False, s1))"

text \<open>
  \<^verbatim>\<open>showFullScreen()\<close> and \<^verbatim>\<open>showNormal()\<close> on the display widget or on its container:
  \<^verbatim>\<open>isFullScreen()\<close> of the widget follows only the calls made on the widget itself, and
  \<^verbatim>\<open>isFullScreen()\<close> of the container those made on the container.
\<close>

definition upd_display_widget :: "(DisplayWidget \<Rightarrow> DisplayWidget) \<Rightarrow> sys \<Rightarrow> sys" where
  "upd_display_widget f s = s\<lparr>m_display_widget := map_option f (m_display_widget s)\<rparr>"

definition showFullScreen :: "qt_target \<Rightarrow> sys \<Rightarrow> sys" where
  "showFullScreen target s =
     emit (Qt (Qt_showFullScreen target))
       (if target = OnWidget then upd_display_widget (\<lambda>w. w\<lparr>w_isFullScreen := True\<rparr>) s
        else s\<lparr>container_isFullScreen := True\<rparr>)"

definition showNormal :: "qt_target \<Rightarrow> sys \<Rightarrow> sys" where
  "showNormal target s =
     emit (Qt (Qt_showNormal target))
       (if target = OnWidget then upd_display_widget (\<lambda>w. w\<lparr>w_isFullScreen := False\<rparr>) s
        else s\<lparr>container_isFullScreen := False\<rparr>)"

text \<open>
  \<^verbatim>\<open>m_ui.mainContainer->insertWidget(1, m_display_widget)\<close>: the stacked widget of the
  main window takes the display widget as its child.
\<close>

definition insertWidget :: "sys \<Rightarrow> sys" where
  "insertWidget s =
     emit (Qt (Qt_insertWidget (case m_display_widget s of None \<Rightarrow> 0 | Some w \<Rightarrow> w_id w)))
       (upd_display_widget (\<lambda>w. w\<lparr>w_parent := Some MainContainer\<rparr>) s)"

definition switchToEmulationView :: "sys \<Rightarrow> fault + sys" where
  "switchToEmulationView s =
     (case m_display_widget s of
        None \<Rightarrow> Inr s
      | Some w \<Rightarrow>
          if w_parent w = None \<or> mainContainer_currentIndex s = 1 then Inr s
          else
            (case (if m_vm_valid s then
                     let s1 = s\<lparr>mainContainer_currentIndex := 1\<rparr>
                     in if m_vm_paused s1 \<and> \<not> m_was_focused_on_container_switch s1
                        then setVMPaused UiThread False s1
                        else Inr s1
                   else Inr s) of
               Inl f \<Rightarrow> Inl f
             | Inr s2 \<Rightarrow> Inr (emit (Qt Qt_setFocus_display) s2)))"

text \<open>
  \<^verbatim>\<open>QByteArray::fromBase64\<close> of Qt, with its default options: the characters of the
  input that are not in the base64 alphabet (the padding \<^verbatim>\<open>=\<close> too) are skipped, every
  other one contributes six bits, and a byte is put out whenever eight bits are there.
  The result is empty exactly when fewer than two characters of the input are in the
  alphabet.
\<close>

definition base64_digit :: "char \<Rightarrow> nat option" where
  "base64_digit ch =
     (let n = (of_char ch :: nat)
      in if 65 \<le> n \<and> n \<le> 90 then Some (n - 65)
         else if 97 \<le> n \<and> n \<le> 122 then Some (n - 97 + 26)
         else if 48 \<le> n \<and> n \<le> 57 then Some (n - 48 + 52)
         else if n = 43 then Some 62
         else if n = 47 then Some 63
         else None)"

fun fromBase64_helper :: "nat \<Rightarrow> nat \<Rightarrow> string \<Rightarrow> string" where
  "fromBase64_helper buf nbits [] = []"
| "fromBase64_helper buf nbits (ch # input) =
     (case base64_digit ch of
        None \<Rightarrow> fromBase64_helper buf nbits input
      | Some d \<Rightarrow>
          if nbits + 6 \<ge> 8
          then char_of ((buf * 64 + d) div 2 ^ (nbits + 6 - 8)) #
               fromBase64_helper ((buf * 64 + d) mod 2 ^ (nbits + 6 - 8)) (nbits + 6 - 8) input
          else fromBase64_helper (buf * 64 + d) (nbits + 6) input)"

definition QByteArray_fromBase64 :: "string \<Rightarrow> string" where
  "QByteArray_fromBase64 base64 = fromBase64_helper 0 0 base64"

definition getDisplayContainer :: "sys \<Rightarrow> qt_target" where
  "getDisplayContainer s = (if m_display_container s then OnContainer else OnWidget)"

definition saveDisplayWindowGeometryToConfig :: "sys \<Rightarrow> sys" where
  "saveDisplayWindowGeometryToConfig s =
     (let geometry_b64 = qt_saveGeometry_b64 s;
          old_geometry_b64 = GetBaseStringSettingValue s ''UI'' ''DisplayWindowGeometry'' []
      in if old_geometry_b64 \<noteq> geometry_b64
         then SetBaseStringSettingValue ''UI'' ''DisplayWindowGeometry'' geometry_b64 s
         else s)"

definition restoreDisplayWindowGeometryFromConfig :: "sys \<Rightarrow> sys" where
  "restoreDisplayWindowGeometryFromConfig s =
     (let geometry_b64 = GetBaseStringSettingValue s ''UI'' ''DisplayWindowGeometry'' [];
          geometry = QByteArray_fromBase64 geometry_b64;
          container = getDisplayContainer s
      in if geometry \<noteq> [] then emit (Qt (Qt_restoreGeometry container geometry)) s
         else emit (Qt (Qt_resize container 640 480)) s)"

definition destroyDisplayWidget :: "sys \<Rightarrow> sys" where
  "destroyDisplayWidget s =
     (case m_display_widget s of
        None \<Rightarrow> s
      | Some w \<Rightarrow>
          let s1 = (if m_display_container s \<or> (w_parent w = None \<and> \<not> w_isFullScreen w)
                    then saveDisplayWindowGeometryToConfig s else s);
              w1 = (if m_display_container s1 \<and> removeDisplayWidget_unparents s1
                    then w\<lparr>w_parent := None\<rparr> else w);
              s2 = (if m_display_container s1 then emit (Qt Qt_removeDisplayWidget) s1 else s1);
              s3 = (if w_parent w1 \<noteq> None
                    then emits [Qt (Qt_removeWidget (w_id w1)), Qt Qt_setFocus_game_list]
                           (s2\<lparr>mainContainer_currentIndex := 0\<rparr>)
                    else s2);
              s4 = (emit (Qt (Qt_deleteDisplayWidget (w_id w1))) s3)\<lparr>m_display_widget := None\<rparr>;
              s5 = (if m_display_container s4 then emit (Qt Qt_deleteDisplayContainer) s4 else s4)
          in s5\<lparr>m_display_container := False\<rparr>)"

definition setDisplayFullscreen :: "HostDisplay \<Rightarrow> sys \<Rightarrow> sys" where
  "setDisplayFullscreen d s =
     (if hd_ParseFullscreenMode_ok d then
        (case SetFullscreen True d s of
           (True, s1) \<Rightarrow> emit (OSD_Message ''Acquired exclusive fullscreen.'') s1
         | (False, s1) \<Rightarrow> emit (OSD_Message ''Failed to acquire exclusive fullscreen.'') s1)
      else s)"

text \<open>
  Lines 962 to 974 of MainWindow.cpp: the new widget, inside a new container when
  \<^verbatim>\<open>DisplayContainer::IsNeeded\<close> says so. \<^verbatim>\<open>IsNeeded\<close> is not among the sources
  and is a parameter. The result names the widget that is the window (\<open>container\<close>).
\<close>

definition new_display_widget ::
  "(bool \<Rightarrow> bool \<Rightarrow> bool) \<Rightarrow> bool \<Rightarrow> bool \<Rightarrow> sys \<Rightarrow> qt_target \<times> sys" where
  "new_display_widget IsNeeded fullscreen render_to_main s =
     (let wid = next_widget_id s;
          s0 = s\<lparr>next_widget_id := Suc wid\<rparr>
      in if IsNeeded fullscreen render_to_main then
           (OnContainer,
            emits [Qt Qt_newDisplayContainer, Qt (Qt_newDisplayWidget wid)]
              (s0\<lparr>m_display_container := True, container_isFullScreen := False,
                   m_display_widget :=
                     Some \<lparr>w_id = wid, w_parent = Some DisplayContainer, w_isFullScreen = False,
                           w_has_window_info = new_widget_window_info s0\<rparr>\<rparr>))
         else
           (OnWidget,
            emit (Qt (Qt_newDisplayWidget wid))
              (s0\<lparr>m_display_widget :=
                     Some \<lparr>w_id = wid,
                           w_parent = (if \<not> fullscreen \<and> render_to_main then Some MainContainer
                                       else None),
                           w_isFullScreen = False,
                           w_has_window_info = new_widget_window_info s0\<rparr>\<rparr>)))"

text \<open>Lines 976 to 1000: title, icon, and showing the new window in the requested mode.\<close>

definition show_display_widget ::
  "qt_target \<Rightarrow> bool \<Rightarrow> bool \<Rightarrow> bool \<Rightarrow> sys \<Rightarrow> fault + sys" where
  "show_display_widget container fullscreen render_to_main is_exclusive_fullscreen s =
     (let s1 = emits [Qt (Qt_setWindowTitle container), Qt (Qt_setWindowIcon container)] s
      in case (if fullscreen then
                 (if \<not> is_exclusive_fullscreen then Inr (showFullScreen container s1)
                  else Inr (showNormal container s1))
               else if \<not> render_to_main then
                 Inr (showNormal container (restoreDisplayWindowGeometryFromConfig s1))
               else
                 switchToEmulationView (insertWidget s1)) of
           Inl f \<Rightarrow> Inl f
         | Inr s2 \<Rightarrow> Inr (emit App_processEvents s2))"

text \<open>
  Lines 939 to 955: the transition between fullscreen and windowed on the widget that
  is there, without recreating the surface.
\<close>

definition toggle_without_recreating :: "HostDisplay \<Rightarrow> bool \<Rightarrow> sys \<Rightarrow> DisplayWidget option \<times> sys" where
  "toggle_without_recreating d fullscreen s =
     (let s1 = (if hd_IsFullscreen d then snd (SetFullscreen False d s) else s);
          s2 = (if fullscreen then showFullScreen OnWidget s1
                else showNormal OnWidget (restoreDisplayWindowGeometryFromConfig s1));
          s3 = emit App_processEvents s2
      in (m_display_widget s3, s3))"

text \<open>
  Lines 958 to 1020: the render surface and the widget are destroyed, a new widget is
  created and shown, and the surface is recreated on it.
\<close>

definition recreate_display_widget ::
  "(bool \<Rightarrow> bool \<Rightarrow> bool) \<Rightarrow> HostDisplay \<Rightarrow> bool \<Rightarrow> bool \<Rightarrow> bool \<Rightarrow> sys
     \<Rightarrow> fault + (DisplayWidget option \<times> sys)" where
  "recreate_display_widget IsNeeded d fullscreen render_to_main is_exclusive_fullscreen s =
     (let s1 = destroyDisplayWidget (DestroyRenderSurface s);
          (container, s2) = new_display_widget IsNeeded fullscreen render_to_main s1
      in case show_display_widget container fullscreen render_to_main is_exclusive_fullscreen s2 of
           Inl f \<Rightarrow> Inl f
         | Inr s3 \<Rightarrow>
             (case m_display_widget s3 of
                None \<Rightarrow> Inl (NullDeref ''m_display_widget'')
              | Some w' \<Rightarrow>
                  if \<not> w_has_window_info w' then
                    Inr (None,
                         destroyDisplayWidget
                           (emit (Qt (Qt_MessageBox_critical
                              ''Failed to get new window info from widget'')) s3))
                  else
                    (case ChangeRenderWindow (w_id w') d s3 of
                       (False, s4) \<Rightarrow>
                         Inl (AssertFail ''Failed to recreate surface on new widget.'')
                     | (True, s4) \<Rightarrow>
                         let s5 = (if is_exclusive_fullscreen
                                   then setDisplayFullscreen d s4 else s4);
                             s6 = emits [Qt Qt_setFocus_display,
                                         Qt (Qt_actionFullscreen_setChecked fullscreen)] s5
                         in Inr (m_display_widget s6, s6))))"

definition MainWindow_updateDisplay ::
  "(bool \<Rightarrow> bool \<Rightarrow> bool) \<Rightarrow> bool \<Rightarrow> bool \<Rightarrow> sys \<Rightarrow> fault + (DisplayWidget option \<times> sys)" where
  "MainWindow_updateDisplay IsNeeded fullscreen render_to_main s =
     (case m_display_widget s of
        None \<Rightarrow> Inl (NullDeref ''m_display_widget'')
      | Some w \<Rightarrow>
          let host_display = s_host_display s;
              is_fullscreen = w_isFullScreen w;
              is_rendering_to_main = (\<not> is_fullscreen \<and> w_parent w \<noteq> None);
              fullscreen_mode = GetBaseStringSettingValue s ''EmuCore/GS'' ''FullscreenMode'' []
          in
            if fullscreen \<and> fullscreen_mode \<noteq> [] \<and> host_display = None
            then Inl (NullDeref ''host_display'')
            else
              let is_exclusive_fullscreen =
                    (fullscreen \<and> fullscreen_mode \<noteq> [] \<and>
                     (case host_display of None \<Rightarrow> False | Some d \<Rightarrow> hd_SupportsFullscreen d))
              in
                if fullscreen = is_fullscreen \<and> is_rendering_to_main = render_to_main
                then Inr (Some w, s)
                else
                  let has_container = m_display_container s;
                      needs_container = IsNeeded fullscreen render_to_main
                  in
                    (case host_display of
                       None \<Rightarrow> Inl (NullDeref ''host_display'')
                     | Some d \<Rightarrow>
                         if \<not> is_rendering_to_main \<and> \<not> render_to_main \<and>
                            \<not> is_exclusive_fullscreen \<and> has_container = needs_container
                         then Inr (toggle_without_recreating d fullscreen s)
                         else recreate_display_widget IsNeeded d fullscreen render_to_main
                                is_exclusive_fullscreen s))"

subsection \<open>The display update as the execution side performs it\<close>

definition connectDisplaySignals :: "DisplayWidget \<Rightarrow> sys \<Rightarrow> sys" where
  "connectDisplaySignals widget s = emit (Qt (Qt_connectDisplaySignals (w_id widget))) s"

text \<open>
  \<^verbatim>\<open>onUpdateDisplayRequested\<close> is connected to \<^verbatim>\<open>MainWindow::updateDisplay\<close> with
  \<^verbatim>\<open>Qt::BlockingQueuedConnection\<close> (\<^verbatim>\<open>connectVMThreadSignals\<close>): the emitting thread
  is suspended until the interactive thread has run the slot, and gets its result.
\<close>

definition EmuThread_updateDisplay ::
  "(bool \<Rightarrow> bool \<Rightarrow> bool) \<Rightarrow> thread \<Rightarrow> sys \<Rightarrow> fault + sys" where
  "EmuThread_updateDisplay IsNeeded caller s =
     (if isOnEmuThread caller then Inl (AssertFail ''Not on emu thread'')
      else
        case s_host_display s of
          None \<Rightarrow> Inl (NullDeref ''display'')
        | Some display \<Rightarrow>
            let s1 = DoneRenderContextCurrent s
            in (case MainWindow_updateDisplay IsNeeded (m_is_fullscreen s1)
                      (\<not> m_is_fullscreen s1 \<and> m_is_rendering_to_main s1) s1 of
                 Inl f \<Rightarrow> Inl f
               | Inr (None, s2) \<Rightarrow> Inl (AssertFail ''Failed to recreate context after updating'')
               | Inr (Some widget, s2) \<Rightarrow>
                   (case MakeRenderContextCurrent caller display s2 of
                      (False, s3) \<Rightarrow> Inl (AssertFail ''Failed to recreate context after updating'')
                    | (True, s3) \<Rightarrow> Inr (connectDisplaySignals widget s3))))"

definition Host_UpdateHostDisplay ::
  "(bool \<Rightarrow> bool \<Rightarrow> bool) \<Rightarrow> thread \<Rightarrow> sys \<Rightarrow> fault + sys" where
  "Host_UpdateHostDisplay IsNeeded caller s =
     (if \<not> g_emu_thread s then Inl (NullDeref ''g_emu_thread'')
      else case EmuThread_updateDisplay IsNeeded caller s of
             Inl f \<Rightarrow> Inl f
           | Inr s1 \<Rightarrow> Inr (emit ImGui_WindowResized s1))"

section \<open>Notions used to state the properties\<close>

text \<open>The events a run has added to the trace.\<close>

definition events_since :: "sys \<Rightarrow> sys \<Rightarrow> event list" where
  "events_since s s' = drop (length (trace s)) (trace s')"

text \<open>
  \<open>appends P s s'\<close>: from \<open>s\<close> to \<open>s'\<close> the trace has only grown, by events that
  satisfy \<open>P\<close>.
\<close>

definition appends :: "(event \<Rightarrow> bool) \<Rightarrow> sys \<Rightarrow> sys \<Rightarrow> bool" where
  "appends P s s' = (length (trace s) \<le> length (trace s') \<and>
                     take (length (trace s)) (trace s') = trace s \<and>
                     list_all P (events_since s s'))"

text \<open>The calls that release or acquire the render context.\<close>

fun context_event :: "event \<Rightarrow> bool" where
  "context_event (HD HD_DoneRenderContextCurrent) = True"
| "context_event (HD (HD_MakeRenderContextCurrent t)) = True"
| "context_event e = False"

definition ui_event :: "event \<Rightarrow> bool" where
  "ui_event e = (\<not> context_event e)"

definition context_holder :: "sys \<Rightarrow> thread option" where
  "context_holder s = (case s_host_display s of None \<Rightarrow> None | Some d \<Rightarrow> hd_context d)"


text \<open>
  The mode that is on the screen, (fullscreen, rendering into the main window). The
  display is fullscreen when the window that holds it is: the display widget itself, or
  the container it sits in, or the host display in exclusive fullscreen (the window is
  then shown normal and the backend owns the screen). It renders into the main window
  when it is not fullscreen and the display widget is a child of the main window's
  stacked widget; a widget inside a \<^verbatim>\<open>DisplayContainer\<close> is in a window of its own.
\<close>

definition exclusive_fullscreen_on :: "sys \<Rightarrow> bool" where
  "exclusive_fullscreen_on s =
     (case s_host_display s of None \<Rightarrow> False | Some d \<Rightarrow> hd_IsFullscreen d)"

definition shown_fullscreen :: "sys \<Rightarrow> DisplayWidget \<Rightarrow> bool" where
  "shown_fullscreen s w =
     (w_isFullScreen w \<or> (m_display_container s \<and> container_isFullScreen s) \<or>
      exclusive_fullscreen_on s)"

definition shown_mode :: "sys \<Rightarrow> DisplayWidget \<Rightarrow> bool \<times> bool" where
  "shown_mode s w =
     (shown_fullscreen s w, \<not> shown_fullscreen s w \<and> w_parent w = Some MainContainer)"

text \<open>
  The display widget is a window of its own or a child of the main window, with no
  \<^verbatim>\<open>DisplayContainer\<close> around it, and the host display is not in exclusive fullscreen.
\<close>

definition plain_display :: "sys \<Rightarrow> DisplayWidget \<Rightarrow> bool" where
  "plain_display s w =
     (\<not> m_display_container s \<and> w_parent w \<noteq> Some DisplayContainer \<and>
      \<not> exclusive_fullscreen_on s)"

text \<open>
  Exclusive fullscreen is involved in a request when it asks for fullscreen, a
  fullscreen mode is configured and the backend supports it.
\<close>

definition exclusive_fullscreen_involved :: "bool \<Rightarrow> sys \<Rightarrow> bool" where
  "exclusive_fullscreen_involved fullscreen s =
     (fullscreen \<and> GetBaseStringSettingValue s ''EmuCore/GS'' ''FullscreenMode'' [] \<noteq> [] \<and>
      (case s_host_display s of None \<Rightarrow> False | Some d \<Rightarrow> hd_SupportsFullscreen d))"

text \<open>
  The condition of an in-place transition: neither the mode on the screen nor the
  requested mode renders to the main window, exclusive fullscreen is not involved, and
  the need for a container is what it was.
\<close>

definition in_place_transition ::
  "(bool \<Rightarrow> bool \<Rightarrow> bool) \<Rightarrow> bool \<Rightarrow> bool \<Rightarrow> DisplayWidget \<Rightarrow> sys \<Rightarrow> bool" where
  "in_place_transition IsNeeded fullscreen render_to_main w s =
     (\<not> snd (shown_mode s w) \<and> \<not> render_to_main \<and>
      \<not> exclusive_fullscreen_involved fullscreen s \<and>
      m_display_container s = IsNeeded fullscreen render_to_main)"

text \<open>
  \<open>ui_side_step s s'\<close>: what the interactive thread may do between \<open>s\<close> and \<open>s'\<close> while
  the execution side waits for it: it adds events that neither release nor acquire the
  render context, and leaves the holder of the context and the host display pointer as
  they were.
\<close>

definition ui_side_step :: "sys \<Rightarrow> sys \<Rightarrow> bool" where
  "ui_side_step s s' = (appends ui_event s s' \<and> context_holder s' = context_holder s \<and>
                         (s_host_display s' = None) = (s_host_display s = None))"



text \<open>What a display update returned: the widget, and the state it left.\<close>

definition returned_widget :: "fault + (DisplayWidget option \<times> sys) \<Rightarrow> DisplayWidget option" where
  "returned_widget r = (case r of Inl f \<Rightarrow> None | Inr (w, s) \<Rightarrow> w)"

definition returned_state :: "fault + (DisplayWidget option \<times> sys) \<Rightarrow> sys option" where
  "returned_state r = (case r of Inl f \<Rightarrow> None | Inr (w, s) \<Rightarrow> Some s)"

text \<open>
  The relation the spec gives between poller and machine: the poller is active exactly
  when the machine is not Running.
\<close>

definition poller_iff_not_running :: "sys \<Rightarrow> bool" where
  "poller_iff_not_running s = (poller_active s = (GetState s \<noteq> Some Running))"

text \<open>What the code keeps: the poller is active exactly when the machine is neither
  Initializing nor Running.\<close>

definition poller_iff_not_starting_or_running :: "sys \<Rightarrow> bool" where
  "poller_iff_not_starting_or_running s =
     (poller_active s = (GetState s \<noteq> Some Initializing \<and> GetState s \<noteq> Some Running))"

section \<open>Concrete states\<close>

text \<open>
  The program before \<^verbatim>\<open>EmuThread::start\<close>; the same with the EmuThread idle in its
  event loop (timer created and started by \<^verbatim>\<open>run\<close>); and a machine Running that renders
  into the main window through widget 0.
\<close>

definition sys_initial :: sys where
  "sys_initial =
     \<lparr>s_state = None, vm_Initialize_ok = True, vm_SaveState_ok = True,
      g_emu_thread = False, thread_isRunning = False, m_ui_thread = UiThread,
      m_shutdown_flag = False, m_is_fullscreen = False, m_is_rendering_to_main = False,
      m_background_controller_polling_timer = None, emu_queue = [],
      s_host_display = None, m_display_widget = None, m_display_container = False,
      container_isFullScreen = False, mainContainer_currentIndex = 0, m_vm_valid = False, m_vm_paused = False,
      m_was_focused_on_container_switch = False, next_widget_id = 0,
      new_widget_window_info = True, removeDisplayWidget_unparents = True,
      qt_saveGeometry_b64 = [],
      base_bool_settings = Map.empty, base_string_settings = Map.empty, trace = []\<rparr>"

definition sys_idle :: sys where
  "sys_idle =
     sys_initial\<lparr>g_emu_thread := True, thread_isRunning := True,
                 m_background_controller_polling_timer := Some True\<rparr>"

definition sys_initializing :: sys where
  "sys_initializing = sys_idle\<lparr>s_state := Some Initializing\<rparr>"

definition display0 :: HostDisplay where
  "display0 =
     \<lparr>hd_context = Some GsThread, hd_has_surface = True, hd_IsFullscreen = False,
      hd_SupportsFullscreen = False, hd_MakeRenderContextCurrent_ok = True,
      hd_ChangeRenderWindow_ok = True, hd_ParseFullscreenMode_ok = True,
      hd_SetFullscreen_ok = True\<rparr>"

definition widget0 :: DisplayWidget where
  "widget0 = \<lparr>w_id = 0, w_parent = Some MainContainer, w_isFullScreen = False,
              w_has_window_info = True\<rparr>"

definition sys_running :: sys where
  "sys_running =
     sys_idle\<lparr>s_state := Some Running, m_background_controller_polling_timer := Some False,
              m_is_rendering_to_main := True, s_host_display := Some display0,
              m_display_widget := Some widget0, mainContainer_currentIndex := 1,
              m_vm_valid := True, next_widget_id := 1\<rparr>"

definition sys_paused :: sys where
  "sys_paused =
     sys_running\<lparr>s_state := Some Paused, m_background_controller_polling_timer := Some True,
                 m_vm_paused := True\<rparr>"

text \<open>The same running machine in a separate, windowed top-level widget.\<close>

definition sys_windowed :: sys where
  "sys_windowed =
     sys_running\<lparr>m_is_rendering_to_main := False,
                 m_display_widget := Some (widget0\<lparr>w_parent := None\<rparr>),
                 mainContainer_currentIndex := 0\<rparr>"

text \<open>
  The running machine after \<^verbatim>\<open>setFullscreen(true)\<close> has set \<open>m_is_fullscreen\<close> and asked
  the GS thread for a display update; and the running machine on a platform that will
  not hand out window info for the next widget.
\<close>

definition sys_fullscreen_requested :: sys where
  "sys_fullscreen_requested = sys_running\<lparr>m_is_fullscreen := True\<rparr>"


text \<open>
  \<^verbatim>\<open>DisplayContainer::IsNeeded\<close> on a platform that never needs the container. Two
  environments of a pumping caller: one in which nothing else happens while it pumps,
  and one in which the machine is gone once it has pumped (the execution thread has
  finished the teardown in the meantime).
\<close>

definition IsNeeded_never :: "bool \<Rightarrow> bool \<Rightarrow> bool" where
  "IsNeeded_never fullscreen render_to_main = False"

definition no_progress :: "sys \<Rightarrow> sys" where
  "no_progress s = s"

definition machine_torn_down :: "sys \<Rightarrow> sys" where
  "machine_torn_down s = s\<lparr>s_state := None\<rparr>"


text \<open>
  The running machine with a fullscreen mode configured on a backend that supports
  exclusive fullscreen; and the state in which \<^verbatim>\<open>MainWindow::updateDisplay\<close> leaves it
  when fullscreen is requested: widget 1 is a window of its own, shown normal, and the
  host display holds exclusive fullscreen.
\<close>

definition display1 :: HostDisplay where
  "display1 = display0\<lparr>hd_SupportsFullscreen := True\<rparr>"

definition widget1 :: DisplayWidget where
  "widget1 = \<lparr>w_id = 1, w_parent = None, w_isFullScreen = False, w_has_window_info = True\<rparr>"

definition sys_fullscreen_mode_set :: sys where
  "sys_fullscreen_mode_set =
     sys_running\<lparr>s_host_display := Some display1,
                 base_string_settings :=
                   [(''EmuCore/GS'', ''FullscreenMode'') \<mapsto> ''1920 x 1080 @ 60 hz'']\<rparr>"

definition sys_exclusive_fullscreen :: sys where
  "sys_exclusive_fullscreen =
     sys_fullscreen_mode_set
       \<lparr>s_host_display := Some (display1\<lparr>hd_IsFullscreen := True\<rparr>),
        m_display_widget := Some widget1, mainContainer_currentIndex := 0,
        next_widget_id := 2,
        trace := [HD HD_DestroyRenderSurface, Qt (Qt_removeWidget 0), Qt Qt_setFocus_game_list,
                  Qt (Qt_deleteDisplayWidget 0), Qt (Qt_newDisplayWidget 1),
                  Qt (Qt_setWindowTitle OnWidget), Qt (Qt_setWindowIcon OnWidget),
                  Qt (Qt_showNormal OnWidget), App_processEvents, HD (HD_ChangeRenderWindow 1),
                  HD (HD_SetFullscreen True), OSD_Message ''Acquired exclusive fullscreen.'',
                  Qt Qt_setFocus_display, Qt (Qt_actionFullscreen_setChecked True)]\<rparr>"

text \<open>
  \<^verbatim>\<open>DisplayContainer::IsNeeded\<close> on a platform that needs the container for every window
  of its own; and the state in which \<^verbatim>\<open>MainWindow::updateDisplay\<close> leaves the running
  machine there when a separate window is requested: widget 1 sits in a container that
  is shown normal.
\<close>

definition IsNeeded_own_window :: "bool \<Rightarrow> bool \<Rightarrow> bool" where
  "IsNeeded_own_window fullscreen render_to_main = (fullscreen \<or> \<not> render_to_main)"

definition widget1_in_container :: DisplayWidget where
  "widget1_in_container =
     \<lparr>w_id = 1, w_parent = Some DisplayContainer, w_isFullScreen = False,
      w_has_window_info = True\<rparr>"

definition sys_container_windowed :: sys where
  "sys_container_windowed =
     sys_running
       \<lparr>m_display_widget := Some widget1_in_container, m_display_container := True,
        mainContainer_currentIndex := 0, next_widget_id := 2,
        trace := [HD HD_DestroyRenderSurface, Qt (Qt_removeWidget 0), Qt Qt_setFocus_game_list,
                  Qt (Qt_deleteDisplayWidget 0), Qt Qt_newDisplayContainer,
                  Qt (Qt_newDisplayWidget 1), Qt (Qt_setWindowTitle OnContainer),
                  Qt (Qt_setWindowIcon OnContainer), Qt (Qt_resize OnContainer 640 480),
                  Qt (Qt_showNormal OnContainer), App_processEvents,
                  HD (HD_ChangeRenderWindow 1), Qt Qt_setFocus_display,
                  Qt (Qt_actionFullscreen_setChecked False)]\<rparr>"

definition boot0 :: VMBootParameters where
  "boot0 = \<lparr>bp_source = ''game.iso'', bp_save_state = [], bp_source_type = Iso,
            bp_fast_boot = None, bp_fullscreen = None\<rparr>"

section \<open>Auxiliary facts\<close>

lemma HasValidVM_invokeQueued [simp]: "HasValidVM (invokeQueued c s) = HasValidVM s"
  by (simp add: HasValidVM_def invokeQueued_def)

lemma while_option_done: "\<not> b s \<Longrightarrow> while_option b f s = Some s"
  by (subst while_option_unfold) simp

lemma empty_queue_update: "emu_queue s = [] \<Longrightarrow> s\<lparr>emu_queue := []\<rparr> = s"
  by (cases s) simp

lemma deliver_next_invokeQueued:
  "emu_queue s = [] \<Longrightarrow> deliver_next pump (invokeQueued c s) = invoke pump EmuThread c s"
  by (simp add: deliver_next_def invokeQueued_def empty_queue_update)

lemma s_state_update_neq: "s_state s \<noteq> Some st \<Longrightarrow> x\<lparr>s_state := Some st\<rparr> \<noteq> s"
  by (auto dest: arg_cong [where f = s_state])

section \<open>Thread-agnostic lifecycle operations\<close>

text \<open>
  C1, as the code has it. Every public lifecycle operation run on the EmuThread runs
  its body in place: it returns and leaves the queue as it was. Called from any other
  thread it appends the identical operation with the same arguments to the EmuThread's
  queue, and that is all it does, unless it is \<^verbatim>\<open>shutdownVM\<close> with \<open>blocking\<close> set while
  a machine is loaded: that call goes on to pump the caller's event loop, a millisecond
  at a time, until no machine is loaded, and whatever happens meanwhile it never returns
  with the invocation merely queued. The queued invocation, once delivered on the
  EmuThread, is the in-place call with the same arguments.
\<close>

theorem public_operations_dispatch:
  assumes "is_public_operation c"
  shows "(\<exists>r. invoke pump EmuThread c s = Some r \<and>
              (\<forall>s'. r = Inr s' \<longrightarrow> emu_queue s' = emu_queue s)) \<and>
         (\<forall>caller. caller \<noteq> EmuThread \<longrightarrow>
            (\<not> (is_blocking_shutdown c \<and> HasValidVM s) \<longrightarrow>
               invoke pump caller c s = Some (Inr (invokeQueued c s))) \<and>
            (is_blocking_shutdown c \<longrightarrow>
               invoke pump caller c s =
                 map_option Inr (while_option HasValidVM (processEvents1 pump) (invokeQueued c s))) \<and>
            (is_blocking_shutdown c \<and> HasValidVM s \<longrightarrow>
               invoke pump caller c s \<noteq> Some (Inr (invokeQueued c s)))) \<and>
         (emu_queue s = [] \<longrightarrow>
            deliver_next pump (invokeQueued c s) = invoke pump EmuThread c s)"
proof (cases c)
  case Q_stopInThread
  with assms show ?thesis by (simp add: is_public_operation_def)
next
  case (Q_startVM bp)
  then show ?thesis
    by (auto simp: is_blocking_shutdown_def startVM_def isOnEmuThread_def deliver_next_invokeQueued
          VMManager_Initialize_def emit_def SetState_def Let_def split: if_splits)
next
  case (Q_shutdownVM a b)
  then show ?thesis
    by (auto simp: is_blocking_shutdown_def shutdownVM_def isOnEmuThread_def
          deliver_next_invokeQueued while_option_done Let_def SetState_def emit_def
          dest: while_option_stop)
qed (auto simp: is_blocking_shutdown_def isOnEmuThread_def deliver_next_invokeQueued
       emit_def emits_def Let_def resetVM_def setVMPaused_def loadState_def loadStateFromSlot_def
       saveState_def saveStateToSlot_def toggleFullscreen_def setFullscreen_def applySettings_def
       checkForSettingChanges_def toggleSoftwareRendering_def switchRenderer_def changeDisc_def
       reloadPatches_def reloadInputSources_def reloadInputBindings_def requestDisplaySize_def
       enumerateInputDevices_def enumerateVibrationMotors_def)

text \<open>
  C1, witness: \<^verbatim>\<open>setVMPaused(true)\<close> with a machine Running, from the interactive thread
  and on the EmuThread.
\<close>

theorem public_operations_dispatch_witness:
  "is_public_operation (Q_setVMPaused True) \<and>
   invoke no_progress UiThread (Q_setVMPaused True) sys_running =
     Some (Inr (sys_running\<lparr>emu_queue := [Q_setVMPaused True]\<rparr>)) \<and>
   deliver_next no_progress (sys_running\<lparr>emu_queue := [Q_setVMPaused True]\<rparr>) =
     invoke no_progress EmuThread (Q_setVMPaused True) sys_running \<and>
   invoke no_progress EmuThread (Q_setVMPaused True) sys_running =
     Some (Inr (sys_running\<lparr>trace := [VM (VM_SetPaused True)]\<rparr>))"
proof -
  have p: "is_public_operation (Q_setVMPaused True)"
    by (simp add: is_public_operation_def)
  have q: "emu_queue sys_running = []" "trace sys_running = []"
    by (simp_all add: sys_running_def sys_idle_def sys_initial_def)
  have b: "\<not> is_blocking_shutdown (Q_setVMPaused True)"
    by (simp add: is_blocking_shutdown_def)
  show ?thesis
    using public_operations_dispatch [OF p, of no_progress sys_running] p q b
    by (simp add: invokeQueued_def setVMPaused_def isOnEmuThread_def emit_def)
qed

text \<open>
  C1, counterexample to the specification's sentence that a call from another thread
  enqueues and returns immediately: \<^verbatim>\<open>shutdownVM(true, true)\<close> from the interactive
  thread with a machine Running. The call returns only after it has pumped events and
  the machine is gone; what it returns is not the state with the invocation merely
  queued.
\<close>

theorem blocking_shutdown_counterexample:
  "invoke machine_torn_down UiThread (Q_shutdownVM True True) sys_running =
     Some (Inr (sys_running\<lparr>s_state := None, emu_queue := [Q_shutdownVM True True],
                            trace := [App_processEvents]\<rparr>)) \<and>
   invoke machine_torn_down UiThread (Q_shutdownVM True True) sys_running \<noteq>
     Some (Inr (invokeQueued (Q_shutdownVM True True) sys_running))"
proof -
  let ?s1 = "invokeQueued (Q_shutdownVM True True) sys_running"
  let ?s2 = "sys_running\<lparr>s_state := None, emu_queue := [Q_shutdownVM True True],
                          trace := [App_processEvents]\<rparr>"
  have step: "processEvents1 machine_torn_down ?s1 = ?s2"
    by (simp add: processEvents1_def machine_torn_down_def invokeQueued_def emit_def
          sys_running_def sys_idle_def sys_initial_def)
  have v1: "HasValidVM ?s1"
    by (simp add: HasValidVM_def invokeQueued_def sys_running_def)
  have v2: "\<not> HasValidVM ?s2"
    by (simp add: HasValidVM_def)
  have "while_option HasValidVM (processEvents1 machine_torn_down) ?s1 = Some ?s2"
    by (subst while_option_unfold, simp only: v1 if_True step,
        subst while_option_unfold, simp only: v2 if_False)
  then have r: "invoke machine_torn_down UiThread (Q_shutdownVM True True) sys_running =
      Some (Inr ?s2)"
    by (simp add: shutdownVM_def isOnEmuThread_def Let_def)
  have "s_state ?s2 \<noteq> s_state ?s1"
    by (simp add: invokeQueued_def sys_running_def)
  then have "?s2 \<noteq> ?s1" by metis
  with r show ?thesis by simp
qed

section \<open>The poll timer after a transition notification\<close>

text \<open>
  C2, as the code has it. With the EmuThread and its timer in place, every transition
  notification returns and leaves the machine state alone; after the starting and the
  resumed notification the poll timer is inactive, after the paused and the destroyed
  notification it is active, and the started notification leaves the timer as it was.
  So after the starting, paused, resumed and destroyed notifications, delivered with
  the machine Initializing, Paused, Running and absent, the poller is active exactly when
  the machine is neither Initializing nor Running.
\<close>

theorem notifications_set_poller:
  assumes "g_emu_thread s" and "m_background_controller_polling_timer s \<noteq> None"
  shows "\<exists>s'. notify n s = Inr s' \<and> GetState s' = GetState s \<and>
           (n = N_Starting \<or> n = N_Resumed \<longrightarrow> \<not> poller_active s') \<and>
           (n = N_Paused \<or> n = N_Destroyed \<longrightarrow> poller_active s') \<and>
           (n = N_Started \<longrightarrow> poller_active s' = poller_active s) \<and>
           ((n = N_Starting \<and> GetState s = Some Initializing) \<or>
            (n = N_Paused \<and> GetState s = Some Paused) \<or>
            (n = N_Resumed \<and> GetState s = Some Running) \<or>
            (n = N_Destroyed \<and> GetState s = None)
            \<longrightarrow> poller_iff_not_starting_or_running s')"
  using assms
  by (cases n)
     (auto simp: Host_OnVMStarting_def Host_OnVMStarted_def Host_OnVMPaused_def
        Host_OnVMResumed_def Host_OnVMDestroyed_def startBackgroundControllerPollTimer_def
        stopBackgroundControllerPollTimer_def emit_def poller_active_def GetState_def
        poller_iff_not_starting_or_running_def)

text \<open>C2, witness: the paused notification with a machine Running starts the timer.\<close>

theorem notifications_set_poller_witness:
  "g_emu_thread sys_running \<and> m_background_controller_polling_timer sys_running \<noteq> None \<and>
   notify N_Paused sys_running =
     Inr (sys_running\<lparr>m_background_controller_polling_timer := Some True,
                      trace := [Signal onVMPaused]\<rparr>) \<and>
   poller_active (sys_running\<lparr>m_background_controller_polling_timer := Some True,
                              trace := [Signal onVMPaused]\<rparr>)"
proof -
  have a: "g_emu_thread sys_running"
    by (simp add: sys_running_def sys_idle_def)
  have b: "m_background_controller_polling_timer sys_running \<noteq> None"
    by (simp add: sys_running_def)
  have c: "notify N_Paused sys_running =
     Inr (sys_running\<lparr>m_background_controller_polling_timer := Some True,
                      trace := [Signal onVMPaused]\<rparr>)"
    by (simp add: Host_OnVMPaused_def startBackgroundControllerPollTimer_def emit_def
          sys_running_def sys_idle_def sys_initial_def)
  show ?thesis
    using notifications_set_poller [OF a b, of N_Paused] a b c by auto
qed

text \<open>
  C2, counterexample to the specification's sentence that the poller is active if and
  only if the machine is not Running, after every notification: the starting
  notification, delivered while
  the machine is Initializing, stops the timer, so the poller is inactive although the
  machine is not Running. The same holds if the notification comes while no machine
  state is present yet.
\<close>

theorem starting_notification_counterexample:
  "notify N_Starting sys_initializing =
     Inr (sys_initializing\<lparr>m_background_controller_polling_timer := Some False,
                           trace := [Signal onVMStarting]\<rparr>) \<and>
   \<not> poller_iff_not_running
        (sys_initializing\<lparr>m_background_controller_polling_timer := Some False,
                          trace := [Signal onVMStarting]\<rparr>) \<and>
   notify N_Starting sys_idle =
     Inr (sys_idle\<lparr>m_background_controller_polling_timer := Some False,
                   trace := [Signal onVMStarting]\<rparr>) \<and>
   \<not> poller_iff_not_running
        (sys_idle\<lparr>m_background_controller_polling_timer := Some False,
                  trace := [Signal onVMStarting]\<rparr>)"
  by (simp add: Host_OnVMStarting_def stopBackgroundControllerPollTimer_def emit_def
        sys_initializing_def sys_idle_def sys_initial_def poller_iff_not_running_def
        poller_active_def GetState_def)

section \<open>A start whose initialization fails\<close>

text \<open>
  C4. With no machine loaded and an initialization that fails, \<^verbatim>\<open>startVM\<close> on the
  EmuThread returns; no machine is loaded afterwards, the state never became Running and
  the event loop was not told to quit; the events of the call are the starting signal,
  the initialization and exactly one failure notification. A start requested from
  another thread is queued, and its delivery on the EmuThread ends in that same state.
\<close>

theorem failed_start_leaves_no_machine:
  assumes "\<not> HasValidVM s" and "\<not> vm_Initialize_ok s"
  shows "\<exists>s'. startVM EmuThread boot_params s = Inr s' \<and>
           \<not> HasValidVM s' \<and> GetState s' = None \<and>
           events_since s s' =
             [Signal onVMStarting, VM (VM_Initialize boot_params), Notify_StartFailed] \<and>
           count_list (events_since s s') Notify_StartFailed = 1 \<and>
           EventLoop_quit \<notin> set (events_since s s') \<and>
           (emu_queue s = [] \<longrightarrow>
              (\<forall>caller. caller \<noteq> EmuThread \<longrightarrow>
                 (\<exists>s1. startVM caller boot_params s = Inr s1 \<and>
                       deliver_next pump s1 = Some (Inr s'))))"
proof -
  obtain s' where s': "startVM EmuThread boot_params s = Inr s'"
    and facts: "\<not> HasValidVM s'" "GetState s' = None"
      "events_since s s' = [Signal onVMStarting, VM (VM_Initialize boot_params), Notify_StartFailed]"
    using assms
    by (auto simp: startVM_def isOnEmuThread_def HasValidVM_def GetState_def
          VMManager_Initialize_def emit_def events_since_def Let_def)
  have "\<exists>s1. startVM caller boot_params s = Inr s1 \<and> deliver_next pump s1 = Some (Inr s')"
    if "emu_queue s = []" "caller \<noteq> EmuThread" for caller
    using that s'
    by (intro exI [of _ "invokeQueued (Q_startVM boot_params) s"])
       (simp add: startVM_def isOnEmuThread_def deliver_next_invokeQueued)
  then show ?thesis using s' facts by (intro exI [of _ s']) simp
qed

text \<open>C4, witness: a failing start of \<open>boot0\<close> with the EmuThread idle.\<close>

theorem failed_start_leaves_no_machine_witness:
  "\<not> HasValidVM (sys_idle\<lparr>vm_Initialize_ok := False\<rparr>) \<and>
   \<not> vm_Initialize_ok (sys_idle\<lparr>vm_Initialize_ok := False\<rparr>) \<and>
   startVM EmuThread boot0 (sys_idle\<lparr>vm_Initialize_ok := False\<rparr>) =
     Inr (sys_idle\<lparr>vm_Initialize_ok := False, m_is_rendering_to_main := True,
                   trace := [Signal onVMStarting, VM (VM_Initialize boot0), Notify_StartFailed]\<rparr>)"
proof -
  let ?s = "sys_idle\<lparr>vm_Initialize_ok := False\<rparr>"
  have a: "\<not> HasValidVM ?s" by (simp add: HasValidVM_def sys_idle_def sys_initial_def)
  have b: "\<not> vm_Initialize_ok ?s" by simp
  have c: "startVM EmuThread boot0 ?s =
     Inr (sys_idle\<lparr>vm_Initialize_ok := False, m_is_rendering_to_main := True,
                   trace := [Signal onVMStarting, VM (VM_Initialize boot0), Notify_StartFailed]\<rparr>)"
    by (simp add: startVM_def isOnEmuThread_def HasValidVM_def VMManager_Initialize_def emit_def
          GetBaseBoolSettingValue_def boot0_def sys_idle_def sys_initial_def Let_def)
  show ?thesis
    using failed_start_leaves_no_machine [OF a b, of boot0 no_progress] a b c by simp
qed

section \<open>The shutdown handler on the execution thread\<close>

text \<open>
  C7. \<^verbatim>\<open>shutdownVM\<close> on the EmuThread returns. From Running it sets the state to
  Stopping and changes nothing else; from Paused it also quits the event loop; from any
  other state, no machine loaded included, it changes nothing. So the call moves the
  machine to Stopping exactly when it was Running or Paused, and it is exactly from
  Paused that the event loop has been told to quit as well.
\<close>

theorem shutdownVM_on_emu_thread:
  "\<exists>s'. shutdownVM pump EmuThread allow_save_to_state blocking s = Some (Inr s') \<and>
        (GetState s = Some Running \<longrightarrow> s' = s\<lparr>s_state := Some Stopping\<rparr>) \<and>
        (GetState s = Some Paused \<longrightarrow>
           s' = s\<lparr>s_state := Some Stopping, trace := trace s @ [EventLoop_quit]\<rparr>) \<and>
        (GetState s \<noteq> Some Running \<and> GetState s \<noteq> Some Paused \<longrightarrow> s' = s) \<and>
        ((GetState s' = Some Stopping \<and> s' \<noteq> s) =
         (GetState s = Some Running \<or> GetState s = Some Paused)) \<and>
        ((GetState s' = Some Stopping \<and> EventLoop_quit \<in> set (events_since s s')) =
         (GetState s = Some Paused))"
  by (auto simp: shutdownVM_def isOnEmuThread_def GetState_def SetState_def emit_def
        events_since_def Let_def s_state_update_neq)

text \<open>C7, witness: the handler with a machine Running, Paused, and with none.\<close>

theorem shutdownVM_on_emu_thread_witness:
  "shutdownVM no_progress EmuThread True False sys_running =
     Some (Inr (sys_running\<lparr>s_state := Some Stopping\<rparr>)) \<and>
   shutdownVM no_progress EmuThread True False sys_paused =
     Some (Inr (sys_paused\<lparr>s_state := Some Stopping, trace := [EventLoop_quit]\<rparr>)) \<and>
   shutdownVM no_progress EmuThread True False sys_idle = Some (Inr sys_idle)"
  using shutdownVM_on_emu_thread [of no_progress True False sys_running]
        shutdownVM_on_emu_thread [of no_progress True False sys_paused]
        shutdownVM_on_emu_thread [of no_progress True False sys_idle]
  by (auto simp: GetState_def sys_running_def sys_paused_def sys_idle_def sys_initial_def)

section \<open>Loading a state with no machine\<close>

text \<open>
  C8. With no machine loaded, \<^verbatim>\<open>loadStateFromSlot(slot)\<close> on the EmuThread returns the
  state unchanged. From whatever thread it is called, it emits nothing, leaves the
  machine state alone and changes at most the EmuThread's queue; and the queued
  invocation, delivered on the EmuThread, changes nothing either.
\<close>

theorem loadStateFromSlot_without_machine:
  assumes "\<not> HasValidVM s"
  shows "loadStateFromSlot EmuThread slot s = Inr s \<and>
         (\<forall>caller. \<exists>s'. loadStateFromSlot caller slot s = Inr s' \<and>
                     trace s' = trace s \<and> s_state s' = s_state s \<and>
                     s'\<lparr>emu_queue := emu_queue s\<rparr> = s) \<and>
         (emu_queue s = [] \<longrightarrow>
            deliver_next pump (invokeQueued (Q_loadStateFromSlot slot) s) = Some (Inr s))"
  using assms
  by (auto simp: loadStateFromSlot_def isOnEmuThread_def invokeQueued_def deliver_next_def
        HasValidVM_def)

text \<open>C8, witness: slot 3 with the EmuThread idle, called in place and from the interactive thread.\<close>

theorem loadStateFromSlot_without_machine_witness:
  "\<not> HasValidVM sys_idle \<and> loadStateFromSlot EmuThread 3 sys_idle = Inr sys_idle \<and>
   loadStateFromSlot UiThread 3 sys_idle = Inr (sys_idle\<lparr>emu_queue := [Q_loadStateFromSlot 3]\<rparr>) \<and>
   deliver_next no_progress (sys_idle\<lparr>emu_queue := [Q_loadStateFromSlot 3]\<rparr>) = Some (Inr sys_idle)"
proof -
  have h: "\<not> HasValidVM sys_idle"
    by (simp add: HasValidVM_def sys_idle_def sys_initial_def)
  have q: "emu_queue sys_idle = []"
    by (simp add: sys_idle_def sys_initial_def)
  have u: "loadStateFromSlot UiThread 3 sys_idle = Inr (sys_idle\<lparr>emu_queue := [Q_loadStateFromSlot 3]\<rparr>)"
    by (simp add: loadStateFromSlot_def isOnEmuThread_def invokeQueued_def q)
  show ?thesis
    using loadStateFromSlot_without_machine [OF h, of 3 no_progress] h q u
    by (simp add: invokeQueued_def)
qed

section \<open>Fatal preconditions of start and stop\<close>

text \<open>
  C9. \<^verbatim>\<open>EmuThread::start\<close> with an EmuThread already there fails its assertion, which
  aborts the process; with none there it succeeds, and a second start after it fails
  the assertion. \<^verbatim>\<open>EmuThread::stop\<close> called on the EmuThread itself always ends in a
  failed assertion.
\<close>

theorem start_stop_preconditions:
  "(g_emu_thread s \<longrightarrow> start caller s = Inl (AssertFail ''Emu thread does not exist'')) \<and>
   (\<not> g_emu_thread s \<longrightarrow>
      (\<exists>s'. start caller s = Inr s' \<and> g_emu_thread s' \<and>
            (\<forall>caller'. start caller' s' = Inl (AssertFail ''Emu thread does not exist'')))) \<and>
   (\<exists>msg. stop pump EmuThread s = Some (Inl (AssertFail msg)))"
proof (intro conjI impI)
  assume "g_emu_thread s"
  then show "start caller s = Inl (AssertFail ''Emu thread does not exist'')"
    by (simp add: start_def)
next
  assume none: "\<not> g_emu_thread s"
  let ?s' = "emits [Qt Qt_semaphore_acquire, Qt (Qt_moveToThread EmuThread),
                    Qt Qt_connectVMThreadSignals]
               ((emit (Qt Qt_QThread_start) (s\<lparr>g_emu_thread := True, m_ui_thread := caller\<rparr>))
                  \<lparr>thread_isRunning := True\<rparr>)"
  have first: "start caller s = Inr ?s'"
    using none by (simp add: start_def Let_def)
  have there: "g_emu_thread ?s'"
    by (simp add: emit_def emits_def)
  then have "start caller' ?s' = Inl (AssertFail ''Emu thread does not exist'')" for caller'
    by (simp add: start_def)
  with first there
  show "\<exists>s'. start caller s = Inr s' \<and> g_emu_thread s' \<and>
          (\<forall>caller'. start caller' s' = Inl (AssertFail ''Emu thread does not exist''))"
    by blast
next
  show "\<exists>msg. stop pump EmuThread s = Some (Inl (AssertFail msg))"
    by (cases "g_emu_thread s") (simp_all add: stop_def isOnEmuThread_def)
qed

text \<open>C9, witness: a second start, a first start, and a stop on the EmuThread.\<close>

theorem start_stop_preconditions_witness:
  "start UiThread sys_idle = Inl (AssertFail ''Emu thread does not exist'') \<and>
   start UiThread sys_initial =
     Inr (sys_initial\<lparr>g_emu_thread := True, thread_isRunning := True,
                      trace := [Qt Qt_QThread_start, Qt Qt_semaphore_acquire,
                                Qt (Qt_moveToThread EmuThread), Qt Qt_connectVMThreadSignals]\<rparr>) \<and>
   stop no_progress EmuThread sys_idle = Some (Inl (AssertFail ''Not called on the emu thread''))"
  using start_stop_preconditions [of sys_idle UiThread no_progress]
        start_stop_preconditions [of sys_initial UiThread no_progress]
  by (auto simp: sys_idle_def sys_initial_def start_def stop_def isOnEmuThread_def
        emit_def emits_def Let_def)

section \<open>Stopping the execution thread from the interactive thread\<close>





section \<open>What the interactive thread does during a display update\<close>

lemma events_since_append: "trace s' = trace s @ es \<Longrightarrow> events_since s s' = es"
  by (simp add: events_since_def)


lemmas display_defs =
  MainWindow_updateDisplay_def recreate_display_widget_def toggle_without_recreating_def
  show_display_widget_def new_display_widget_def destroyDisplayWidget_def
  saveDisplayWindowGeometryToConfig_def restoreDisplayWindowGeometryFromConfig_def
  switchToEmulationView_def setDisplayFullscreen_def showFullScreen_def showNormal_def
  insertWidget_def
  DestroyRenderSurface_def ChangeRenderWindow_def SetFullscreen_def upd_host_display_def
  upd_display_widget_def getDisplayContainer_def GetBaseStringSettingValue_def
  SetBaseStringSettingValue_def QByteArray_fromBase64_def emit_def emits_def Let_def

lemmas state_defs =
  sys_running_def sys_idle_def sys_initial_def sys_windowed_def display0_def widget0_def
  IsNeeded_never_def

lemmas mode_defs =
  shown_mode_def shown_fullscreen_def exclusive_fullscreen_on_def plain_display_def
  in_place_transition_def exclusive_fullscreen_involved_def

text \<open>
  Lines 927 and 928 of MainWindow.cpp read the current mode off the display widget:
  fullscreen is the widget's own \<^verbatim>\<open>isFullScreen()\<close>, and rendering into the main window
  is having any parent. For a plain display this is the mode on the screen.
\<close>

lemma plain_display_mode:
  assumes "plain_display s w"
  shows "shown_mode s w = (w_isFullScreen w, \<not> w_isFullScreen w \<and> w_parent w \<noteq> None)"
proof (cases "w_parent w")
  case None
  with assms show ?thesis by (simp add: mode_defs)
next
  case (Some p)
  with assms show ?thesis by (cases p) (simp_all add: mode_defs)
qed


lemma appends_iff: "appends P s s' = (\<exists>es. trace s' = trace s @ es \<and> list_all P es)"
proof
  assume a: "appends P s s'"
  then have "trace s' = trace s @ events_since s s'"
    unfolding appends_def events_since_def
    by (metis append_take_drop_id)
  with a show "\<exists>es. trace s' = trace s @ es \<and> list_all P es"
    unfolding appends_def by blast
next
  assume "\<exists>es. trace s' = trace s @ es \<and> list_all P es"
  then show "appends P s s'"
    by (auto simp: appends_def events_since_def)
qed

lemma ui_side_step_iff:
  "ui_side_step s x =
     ((\<exists>es. trace x = trace s @ es \<and> list_all ui_event es) \<and> context_holder x = context_holder s \<and>
      (s_host_display x = None) = (s_host_display s = None))"
  by (simp add: ui_side_step_def appends_iff)

lemma ui_refl: "ui_side_step s s"
  by (simp add: ui_side_step_iff)

lemma ui_same:
  "trace y = trace x \<Longrightarrow> s_host_display y = s_host_display x \<Longrightarrow> ui_side_step s x \<Longrightarrow> ui_side_step s y"
  by (simp add: ui_side_step_iff context_holder_def)

lemma ui_emit: "ui_event e \<Longrightarrow> ui_side_step s x \<Longrightarrow> ui_side_step s (emit e x)"
  by (auto simp: ui_side_step_iff emit_def context_holder_def)

lemma ui_emits: "list_all ui_event es \<Longrightarrow> ui_side_step s x \<Longrightarrow> ui_side_step s (emits es x)"
  by (auto simp: ui_side_step_iff emits_def context_holder_def)

lemma ui_upd_host_display:
  "(\<And>d. hd_context (f d) = hd_context d) \<Longrightarrow> ui_side_step s x \<Longrightarrow> ui_side_step s (upd_host_display f x)"
  by (auto simp: ui_side_step_iff upd_host_display_def context_holder_def split: option.splits)

lemma ui_upd_display_widget: "ui_side_step s x \<Longrightarrow> ui_side_step s (upd_display_widget f x)"
  by (erule ui_same [rotated 2]) (simp_all add: upd_display_widget_def)

lemma ui_container_isFullScreen:
  "ui_side_step s x \<Longrightarrow> ui_side_step s (x\<lparr>container_isFullScreen := v\<rparr>)"
  by (erule ui_same [rotated 2]) simp_all

lemma ui_showFullScreen: "ui_side_step s x \<Longrightarrow> ui_side_step s (showFullScreen t x)"
  by (simp add: showFullScreen_def ui_emit ui_upd_display_widget ui_container_isFullScreen
        ui_event_def)

lemma ui_showNormal: "ui_side_step s x \<Longrightarrow> ui_side_step s (showNormal t x)"
  by (simp add: showNormal_def ui_emit ui_upd_display_widget ui_container_isFullScreen
        ui_event_def)

lemma ui_insertWidget: "ui_side_step s x \<Longrightarrow> ui_side_step s (insertWidget x)"
  by (simp add: insertWidget_def ui_emit ui_upd_display_widget ui_event_def)

lemma ui_restore: "ui_side_step s x \<Longrightarrow> ui_side_step s (restoreDisplayWindowGeometryFromConfig x)"
  by (simp add: restoreDisplayWindowGeometryFromConfig_def Let_def ui_emit ui_event_def)

lemma ui_save: "ui_side_step s x \<Longrightarrow> ui_side_step s (saveDisplayWindowGeometryToConfig x)"
  by (auto simp: saveDisplayWindowGeometryToConfig_def Let_def SetBaseStringSettingValue_def
        elim: ui_same [rotated 2])

lemma ui_DestroyRenderSurface: "ui_side_step s x \<Longrightarrow> ui_side_step s (DestroyRenderSurface x)"
  by (simp add: DestroyRenderSurface_def ui_emit ui_upd_host_display ui_event_def)

lemma ui_SetFullscreen: "ui_side_step s x \<Longrightarrow> ui_side_step s (snd (SetFullscreen b d x))"
  by (simp add: SetFullscreen_def Let_def ui_emit ui_upd_host_display ui_event_def)

lemma ui_ChangeRenderWindow: "ui_side_step s x \<Longrightarrow> ui_side_step s (snd (ChangeRenderWindow wid d x))"
  by (simp add: ChangeRenderWindow_def Let_def ui_emit ui_upd_host_display ui_event_def)

lemma ui_setDisplayFullscreen: "ui_side_step s x \<Longrightarrow> ui_side_step s (setDisplayFullscreen d x)"
  by (simp add: setDisplayFullscreen_def SetFullscreen_def Let_def ui_emit ui_upd_host_display ui_event_def)

lemma ui_destroyDisplayWidget: "ui_side_step s x \<Longrightarrow> ui_side_step s (destroyDisplayWidget x)"
proof -
  assume a: "ui_side_step s x"
  have upd: "\<And>y v. ui_side_step s y \<Longrightarrow> ui_side_step s (y\<lparr>m_display_widget := v\<rparr>)"
       "\<And>y v. ui_side_step s y \<Longrightarrow> ui_side_step s (y\<lparr>m_display_container := v\<rparr>)"
       "\<And>y v. ui_side_step s y \<Longrightarrow> ui_side_step s (y\<lparr>mainContainer_currentIndex := v\<rparr>)"
    by (erule ui_same [rotated 2]; simp)+
  show ?thesis
    using a
    by (simp add: destroyDisplayWidget_def Let_def ui_emit ui_emits ui_save ui_event_def upd
          split: option.splits)
qed

lemma ui_new_display_widget:
  "ui_side_step s x \<Longrightarrow> ui_side_step s (snd (new_display_widget IsNeeded f r x))"
proof -
  assume a: "ui_side_step s x"
  have upd: "\<And>y v. ui_side_step s y \<Longrightarrow> ui_side_step s (y\<lparr>m_display_widget := v\<rparr>)"
       "\<And>y v. ui_side_step s y \<Longrightarrow> ui_side_step s (y\<lparr>m_display_container := v\<rparr>)"
       "\<And>y v. ui_side_step s y \<Longrightarrow> ui_side_step s (y\<lparr>next_widget_id := v\<rparr>)"
    by (erule ui_same [rotated 2]; simp)+
  show ?thesis
    using a
    by (simp add: new_display_widget_def Let_def ui_emit ui_emits ui_event_def upd
          ui_container_isFullScreen)
qed

lemma ui_switchToEmulationView:
  "switchToEmulationView x = Inr y \<Longrightarrow> ui_side_step s x \<Longrightarrow> ui_side_step s y"
proof -
  assume r: "switchToEmulationView x = Inr y" and a: "ui_side_step s x"
  have upd: "\<And>y v. ui_side_step s y \<Longrightarrow> ui_side_step s (y\<lparr>mainContainer_currentIndex := v\<rparr>)"
       "\<And>y v. ui_side_step s y \<Longrightarrow> ui_side_step s (y\<lparr>emu_queue := v\<rparr>)"
    by (erule ui_same [rotated 2]; simp)+
  show ?thesis
    using r a
    by (auto simp: switchToEmulationView_def Let_def setVMPaused_def isOnEmuThread_def
          invokeQueued_def ui_emit ui_event_def upd split: option.splits if_splits)
qed

lemma ui_show_display_widget:
  "show_display_widget c f r e x = Inr y \<Longrightarrow> ui_side_step s x \<Longrightarrow> ui_side_step s y"
  by (auto simp: show_display_widget_def Let_def ui_emit ui_emits ui_showFullScreen ui_showNormal
        ui_restore ui_insertWidget ui_event_def split: if_splits sum.splits
        dest!: ui_switchToEmulationView [where s = s])

lemma ui_toggle_without_recreating:
  "ui_side_step s x \<Longrightarrow> ui_side_step s (snd (toggle_without_recreating d f x))"
  by (simp add: toggle_without_recreating_def Let_def ui_emit ui_showFullScreen ui_showNormal
        ui_restore ui_SetFullscreen ui_event_def)

lemma ui_recreate_display_widget:
  assumes r: "recreate_display_widget IsNeeded d f r e x = Inr (w, y)"
  shows "ui_side_step x y"
proof -
  let ?s1 = "destroyDisplayWidget (DestroyRenderSurface x)"
  let ?n = "new_display_widget IsNeeded f r ?s1"
  have s2: "ui_side_step x (snd ?n)"
    by (intro ui_new_display_widget ui_destroyDisplayWidget ui_DestroyRenderSurface ui_refl)
  from r obtain s3 where s3: "show_display_widget (fst ?n) f r e (snd ?n) = Inr s3"
    by (auto simp: recreate_display_widget_def Let_def case_prod_beta split: sum.splits)
  have u3: "ui_side_step x s3"
    by (rule ui_show_display_widget [OF s3 s2])
  from r s3 obtain w' where w': "m_display_widget s3 = Some w'"
    by (auto simp: recreate_display_widget_def Let_def case_prod_beta split: option.splits)
  show ?thesis
  proof (cases "w_has_window_info w'")
    case False
    with r s3 w' have "y = destroyDisplayWidget
        (emit (Qt (Qt_MessageBox_critical ''Failed to get new window info from widget'')) s3)"
      by (simp add: recreate_display_widget_def Let_def case_prod_beta)
    then show ?thesis
      by (simp add: ui_destroyDisplayWidget ui_emit u3 ui_event_def)
  next
    case True
    with r s3 w' have "y = emits [Qt Qt_setFocus_display, Qt (Qt_actionFullscreen_setChecked f)]
        (if e then setDisplayFullscreen d (snd (ChangeRenderWindow (w_id w') d s3))
         else snd (ChangeRenderWindow (w_id w') d s3))"
      by (auto simp: recreate_display_widget_def Let_def case_prod_beta split: prod.splits bool.splits)
    then show ?thesis
      by (simp add: ui_emits ui_setDisplayFullscreen ui_ChangeRenderWindow u3 ui_event_def)
  qed
qed

lemma ui_MainWindow_updateDisplay:
  assumes "MainWindow_updateDisplay IsNeeded f r x = Inr (w, y)"
  shows "ui_side_step x y"
proof -
  have "ui_side_step x y" if "toggle_without_recreating d f x = (w, y)" for d
    using ui_toggle_without_recreating [OF ui_refl, of x d f] that by simp
  with assms show ?thesis
    unfolding MainWindow_updateDisplay_def Let_def
    by (auto simp: ui_refl split: option.splits if_splits intro: ui_recreate_display_widget)
qed


section \<open>The order of release, round-trip and re-acquisition\<close>

text \<open>
  C6. \<^verbatim>\<open>EmuThread::updateDisplay\<close> runs on the execution side's rendering thread (it
  asserts that it is not on the EmuThread's own thread). With a host display there, it
  first releases the render context: after that the context is current on no thread.
  Whatever \<^verbatim>\<open>MainWindow::updateDisplay\<close> then does on the interactive thread, it adds no
  event that releases or acquires the context and the context stays unheld. When the
  call returns normally, its events are the release, then those of the interactive
  thread, then the re-acquisition by the caller and the reconnection of the widget,
  in this order, and the caller holds the context again. It returns normally exactly
  when the interactive thread returned a widget and the context could be made current.
\<close>

theorem display_update_releases_context_first:
  assumes "caller \<noteq> EmuThread" and "s_host_display s = Some d"
  shows "context_holder (DoneRenderContextCurrent s) = None \<and>
         events_since s (DoneRenderContextCurrent s) = [HD HD_DoneRenderContextCurrent] \<and>
         (\<forall>w s2. MainWindow_updateDisplay IsNeeded (m_is_fullscreen s)
                    (\<not> m_is_fullscreen s \<and> m_is_rendering_to_main s)
                    (DoneRenderContextCurrent s) = Inr (w, s2) \<longrightarrow>
                  context_holder s2 = None \<and> appends ui_event (DoneRenderContextCurrent s) s2) \<and>
         (\<forall>s'. EmuThread_updateDisplay IsNeeded caller s = Inr s' \<longrightarrow>
               (\<exists>w s2. MainWindow_updateDisplay IsNeeded (m_is_fullscreen s)
                          (\<not> m_is_fullscreen s \<and> m_is_rendering_to_main s)
                          (DoneRenderContextCurrent s) = Inr (Some w, s2) \<and>
                        events_since s s' =
                          HD HD_DoneRenderContextCurrent #
                          events_since (DoneRenderContextCurrent s) s2 @
                          [HD (HD_MakeRenderContextCurrent caller),
                           Qt (Qt_connectDisplaySignals (w_id w))] \<and>
                        context_holder s' = Some caller)) \<and>
         ((\<exists>s'. EmuThread_updateDisplay IsNeeded caller s = Inr s') =
          (hd_MakeRenderContextCurrent_ok d \<and>
           (\<exists>w s2. MainWindow_updateDisplay IsNeeded (m_is_fullscreen s)
                      (\<not> m_is_fullscreen s \<and> m_is_rendering_to_main s)
                      (DoneRenderContextCurrent s) = Inr (Some w, s2))))"
proof -
  let ?s1 = "DoneRenderContextCurrent s"
  let ?ui = "MainWindow_updateDisplay IsNeeded (m_is_fullscreen s)
               (\<not> m_is_fullscreen s \<and> m_is_rendering_to_main s) ?s1"
  have t1: "trace ?s1 = trace s @ [HD HD_DoneRenderContextCurrent]"
    by (simp add: DoneRenderContextCurrent_def emit_def upd_host_display_def)
  have c1: "context_holder ?s1 = None"
    using assms(2)
    by (simp add: DoneRenderContextCurrent_def emit_def upd_host_display_def context_holder_def)
  have f1: "m_is_fullscreen ?s1 = m_is_fullscreen s" "m_is_rendering_to_main ?s1 = m_is_rendering_to_main s"
    by (simp_all add: DoneRenderContextCurrent_def emit_def upd_host_display_def)
  have ui: "context_holder s2 = None \<and> appends ui_event ?s1 s2 \<and> s_host_display s2 \<noteq> None"
    if "?ui = Inr (w, s2)" for w s2
    using ui_MainWindow_updateDisplay [OF that] c1 assms(2)
    by (simp add: ui_side_step_def DoneRenderContextCurrent_def emit_def upd_host_display_def)
  have run: "EmuThread_updateDisplay IsNeeded caller s =
      (case ?ui of
         Inl f \<Rightarrow> Inl f
       | Inr (None, s2) \<Rightarrow> Inl (AssertFail ''Failed to recreate context after updating'')
       | Inr (Some widget, s2) \<Rightarrow>
           (case MakeRenderContextCurrent caller d s2 of
              (False, s3) \<Rightarrow> Inl (AssertFail ''Failed to recreate context after updating'')
            | (True, s3) \<Rightarrow> Inr (connectDisplaySignals widget s3)))"
    using assms by (simp add: EmuThread_updateDisplay_def isOnEmuThread_def Let_def f1)
  have ok: "\<exists>w s2. ?ui = Inr (Some w, s2) \<and>
              events_since s s' =
                HD HD_DoneRenderContextCurrent # events_since ?s1 s2 @
                [HD (HD_MakeRenderContextCurrent caller), Qt (Qt_connectDisplaySignals (w_id w))] \<and>
              context_holder s' = Some caller \<and> hd_MakeRenderContextCurrent_ok d"
    if r: "EmuThread_updateDisplay IsNeeded caller s = Inr s'" for s'
  proof -
    from r run obtain w s2 where u: "?ui = Inr (Some w, s2)"
      and m: "hd_MakeRenderContextCurrent_ok d"
      and s': "s' = connectDisplaySignals w (snd (MakeRenderContextCurrent caller d s2))"
      by (auto simp: MakeRenderContextCurrent_def Let_def
            split: sum.splits option.splits prod.splits if_splits)
    from ui [OF u] obtain es where es: "trace s2 = trace ?s1 @ es" and d2: "s_host_display s2 \<noteq> None"
      by (auto simp: appends_iff)
    have "trace s' = trace s @ HD HD_DoneRenderContextCurrent # es @
            [HD (HD_MakeRenderContextCurrent caller), Qt (Qt_connectDisplaySignals (w_id w))]"
      using s' m es t1
      by (simp add: connectDisplaySignals_def MakeRenderContextCurrent_def Let_def emit_def
            upd_host_display_def)
    then have "events_since s s' = HD HD_DoneRenderContextCurrent # es @
            [HD (HD_MakeRenderContextCurrent caller), Qt (Qt_connectDisplaySignals (w_id w))]"
      by (rule events_since_append)
    moreover have "events_since ?s1 s2 = es"
      using es by (rule events_since_append)
    moreover have "context_holder s' = Some caller"
      using s' m d2
      by (auto simp: connectDisplaySignals_def MakeRenderContextCurrent_def Let_def emit_def
            upd_host_display_def context_holder_def)
    ultimately show ?thesis using u m by auto
  qed
  have conv: "\<exists>s'. EmuThread_updateDisplay IsNeeded caller s = Inr s'"
    if "hd_MakeRenderContextCurrent_ok d" "?ui = Inr (Some w, s2)" for w s2
    using that run by (simp add: MakeRenderContextCurrent_def Let_def)
  show ?thesis
    using c1 t1 ui ok conv
    by (auto simp: events_since_append)
qed

text \<open>
  C6, witness: the update that the GS thread performs after fullscreen was requested
  while the machine renders into the main window.
\<close>

theorem display_update_releases_context_first_witness:
  "GsThread \<noteq> EmuThread \<and> s_host_display sys_fullscreen_requested = Some display0 \<and>
   map_sum id trace (EmuThread_updateDisplay IsNeeded_never GsThread sys_fullscreen_requested) =
     Inr [HD HD_DoneRenderContextCurrent, HD HD_DestroyRenderSurface, Qt (Qt_removeWidget 0),
          Qt Qt_setFocus_game_list, Qt (Qt_deleteDisplayWidget 0), Qt (Qt_newDisplayWidget 1),
          Qt (Qt_setWindowTitle OnWidget), Qt (Qt_setWindowIcon OnWidget),
          Qt (Qt_showFullScreen OnWidget), App_processEvents, HD (HD_ChangeRenderWindow 1),
          Qt Qt_setFocus_display, Qt (Qt_actionFullscreen_setChecked True),
          HD (HD_MakeRenderContextCurrent GsThread), Qt (Qt_connectDisplaySignals 1)] \<and>
   map_sum id context_holder
     (EmuThread_updateDisplay IsNeeded_never GsThread sys_fullscreen_requested) =
     Inr (Some GsThread)"
proof -
  have a: "GsThread \<noteq> EmuThread" by simp
  have b: "s_host_display sys_fullscreen_requested = Some display0"
    by (simp add: sys_fullscreen_requested_def sys_running_def)
  have r: "EmuThread_updateDisplay IsNeeded_never GsThread sys_fullscreen_requested =
    Inr (sys_running\<lparr>m_is_fullscreen := True,
                     s_host_display := Some display0,
                     m_display_widget := Some \<lparr>w_id = 1, w_parent = None, w_isFullScreen = True,
                                                w_has_window_info = True\<rparr>,
                     mainContainer_currentIndex := 0, next_widget_id := 2,
                     trace := [HD HD_DoneRenderContextCurrent, HD HD_DestroyRenderSurface,
                               Qt (Qt_removeWidget 0), Qt Qt_setFocus_game_list,
                               Qt (Qt_deleteDisplayWidget 0), Qt (Qt_newDisplayWidget 1),
                               Qt (Qt_setWindowTitle OnWidget), Qt (Qt_setWindowIcon OnWidget),
                               Qt (Qt_showFullScreen OnWidget), App_processEvents,
                               HD (HD_ChangeRenderWindow 1), Qt Qt_setFocus_display,
                               Qt (Qt_actionFullscreen_setChecked True),
                               HD (HD_MakeRenderContextCurrent GsThread),
                               Qt (Qt_connectDisplaySignals 1)]\<rparr>)"
    by (simp add: EmuThread_updateDisplay_def isOnEmuThread_def DoneRenderContextCurrent_def
          MakeRenderContextCurrent_def connectDisplaySignals_def sys_fullscreen_requested_def
          display_defs state_defs)
  show ?thesis
    using display_update_releases_context_first [OF a b, of IsNeeded_never] a b
    by (simp add: r context_holder_def display0_def)
qed

section \<open>A display update that asks for the mode on the screen\<close>

text \<open>
  For a plain display, a request for the mode on the screen returns the widget that is
  there and leaves the whole state, trace included, as it was.
\<close>

lemma updateDisplay_same_mode_plain:
  assumes "m_display_widget s = Some w" and "s_host_display s = Some d"
    and "plain_display s w" and "(fullscreen, render_to_main) = shown_mode s w"
  shows "MainWindow_updateDisplay IsNeeded fullscreen render_to_main s = Inr (Some w, s)"
  using assms(1,2,4) unfolding plain_display_mode [OF assms(3)]
  by (auto simp: MainWindow_updateDisplay_def Let_def)

text \<open>
  C10, on the code. In exclusive fullscreen the window of the display widget is shown
  normal (line 984) and the widget has no parent, so lines 927 and 928 read the mode as
  windowed although the display is fullscreen. Fullscreen is requested for the running
  machine that renders into the main window, with a fullscreen mode configured: the
  update leaves widget 1 in exclusive fullscreen, and the mode on the screen is
  (fullscreen, not in the main window). The same mode is requested again: the update
  destroys the render surface and widget 1 and creates widget 2 with a new surface,
  instead of returning widget 1 with nothing changed.
\<close>

theorem updateDisplay_same_mode_in_exclusive_fullscreen:
  "MainWindow_updateDisplay IsNeeded_never True False sys_fullscreen_mode_set =
     Inr (Some widget1, sys_exclusive_fullscreen) \<and>
   m_display_widget sys_exclusive_fullscreen = Some widget1 \<and>
   shown_mode sys_exclusive_fullscreen widget1 = (True, False) \<and>
   returned_widget (MainWindow_updateDisplay IsNeeded_never True False sys_exclusive_fullscreen) =
     Some \<lparr>w_id = 2, w_parent = None, w_isFullScreen = False, w_has_window_info = True\<rparr> \<and>
   map_option (events_since sys_exclusive_fullscreen)
     (returned_state (MainWindow_updateDisplay IsNeeded_never True False sys_exclusive_fullscreen)) =
     Some [HD HD_DestroyRenderSurface, Qt (Qt_deleteDisplayWidget 1), Qt (Qt_newDisplayWidget 2),
           Qt (Qt_setWindowTitle OnWidget), Qt (Qt_setWindowIcon OnWidget),
           Qt (Qt_showNormal OnWidget), App_processEvents, HD (HD_ChangeRenderWindow 2),
           HD (HD_SetFullscreen True), OSD_Message ''Acquired exclusive fullscreen.'',
           Qt Qt_setFocus_display, Qt (Qt_actionFullscreen_setChecked True)]"
proof -
  have r1: "MainWindow_updateDisplay IsNeeded_never True False sys_fullscreen_mode_set =
      Inr (Some widget1, sys_exclusive_fullscreen)"
    by (simp add: display_defs state_defs sys_fullscreen_mode_set_def
          sys_exclusive_fullscreen_def display1_def widget1_def)
  have w: "m_display_widget sys_exclusive_fullscreen = Some widget1"
    by (simp add: sys_exclusive_fullscreen_def)
  have m: "shown_mode sys_exclusive_fullscreen widget1 = (True, False)"
    by (simp add: mode_defs sys_exclusive_fullscreen_def display1_def widget1_def)
  have r2: "MainWindow_updateDisplay IsNeeded_never True False sys_exclusive_fullscreen =
      Inr (Some \<lparr>w_id = 2, w_parent = None, w_isFullScreen = False, w_has_window_info = True\<rparr>,
           sys_exclusive_fullscreen
             \<lparr>m_display_widget :=
                Some \<lparr>w_id = 2, w_parent = None, w_isFullScreen = False,
                      w_has_window_info = True\<rparr>,
              next_widget_id := 3,
              trace := trace sys_exclusive_fullscreen @
                [HD HD_DestroyRenderSurface, Qt (Qt_deleteDisplayWidget 1),
                 Qt (Qt_newDisplayWidget 2), Qt (Qt_setWindowTitle OnWidget),
                 Qt (Qt_setWindowIcon OnWidget), Qt (Qt_showNormal OnWidget), App_processEvents,
                 HD (HD_ChangeRenderWindow 2), HD (HD_SetFullscreen True),
                 OSD_Message ''Acquired exclusive fullscreen.'', Qt Qt_setFocus_display,
                 Qt (Qt_actionFullscreen_setChecked True)]\<rparr>)"
    by (simp add: display_defs state_defs sys_fullscreen_mode_set_def
          sys_exclusive_fullscreen_def display1_def widget1_def)
  show ?thesis
    by (simp add: r1 w m r2 returned_widget_def returned_state_def events_since_def)
qed

text \<open>
  The same reading makes the update ignore a request to leave exclusive fullscreen for a
  window: the request differs from the mode on the screen, and the update returns
  widget 1 with nothing changed, exclusive fullscreen still on.
\<close>

lemma updateDisplay_leaving_exclusive_fullscreen:
  "shown_mode sys_exclusive_fullscreen widget1 \<noteq> (False, False) \<and>
   MainWindow_updateDisplay IsNeeded_never False False sys_exclusive_fullscreen =
     Inr (Some widget1, sys_exclusive_fullscreen) \<and>
   exclusive_fullscreen_on sys_exclusive_fullscreen"
  by (simp add: mode_defs MainWindow_updateDisplay_def GetBaseStringSettingValue_def Let_def
        sys_exclusive_fullscreen_def sys_fullscreen_mode_set_def display1_def widget1_def)

text \<open>
  And a display widget inside a \<^verbatim>\<open>DisplayContainer\<close> has the container as its parent
  (line 966), so its mode is read as rendering into the main window. A separate window
  is requested for the running machine on a platform that needs the container: the
  update leaves widget 1 in a container that is shown normal. Then the request for that
  same mode destroys and recreates surface and widget; the request for fullscreen does
  so too, although it meets the condition of an in-place transition; and the request to
  render into the main window is taken for the current mode and returned unchanged.
\<close>

lemma updateDisplay_in_container:
  "MainWindow_updateDisplay IsNeeded_own_window False False sys_running =
     Inr (Some widget1_in_container, sys_container_windowed) \<and>
   shown_mode sys_container_windowed widget1_in_container = (False, False) \<and>
   map_option (take 4 \<circ> events_since sys_container_windowed)
     (returned_state (MainWindow_updateDisplay IsNeeded_own_window False False
                        sys_container_windowed)) =
     Some [HD HD_DestroyRenderSurface, Qt Qt_removeDisplayWidget,
           Qt (Qt_deleteDisplayWidget 1), Qt Qt_deleteDisplayContainer] \<and>
   in_place_transition IsNeeded_own_window True False widget1_in_container
     sys_container_windowed \<and>
   map_option (take 4 \<circ> events_since sys_container_windowed)
     (returned_state (MainWindow_updateDisplay IsNeeded_own_window True False
                        sys_container_windowed)) =
     Some [HD HD_DestroyRenderSurface, Qt Qt_removeDisplayWidget,
           Qt (Qt_deleteDisplayWidget 1), Qt Qt_deleteDisplayContainer] \<and>
   MainWindow_updateDisplay IsNeeded_own_window False True sys_container_windowed =
     Inr (Some widget1_in_container, sys_container_windowed)"
proof -
  have r1: "MainWindow_updateDisplay IsNeeded_own_window False False sys_running =
      Inr (Some widget1_in_container, sys_container_windowed)"
    by (simp add: display_defs state_defs sys_container_windowed_def widget1_in_container_def
          IsNeeded_own_window_def)
  have m: "shown_mode sys_container_windowed widget1_in_container = (False, False)"
    by (simp add: mode_defs sys_container_windowed_def widget1_in_container_def state_defs)
  have i: "in_place_transition IsNeeded_own_window True False widget1_in_container
      sys_container_windowed"
    by (simp add: mode_defs sys_container_windowed_def widget1_in_container_def state_defs
          IsNeeded_own_window_def GetBaseStringSettingValue_def)
  have r2: "map_option (take 4 \<circ> events_since sys_container_windowed)
      (returned_state (MainWindow_updateDisplay IsNeeded_own_window False False
                         sys_container_windowed)) =
      Some [HD HD_DestroyRenderSurface, Qt Qt_removeDisplayWidget,
            Qt (Qt_deleteDisplayWidget 1), Qt Qt_deleteDisplayContainer]"
    by (simp add: display_defs state_defs sys_container_windowed_def widget1_in_container_def
          IsNeeded_own_window_def returned_state_def events_since_def)
  have r3: "map_option (take 4 \<circ> events_since sys_container_windowed)
      (returned_state (MainWindow_updateDisplay IsNeeded_own_window True False
                         sys_container_windowed)) =
      Some [HD HD_DestroyRenderSurface, Qt Qt_removeDisplayWidget,
            Qt (Qt_deleteDisplayWidget 1), Qt Qt_deleteDisplayContainer]"
    by (simp add: display_defs state_defs sys_container_windowed_def widget1_in_container_def
          IsNeeded_own_window_def returned_state_def events_since_def)
  have r4: "MainWindow_updateDisplay IsNeeded_own_window False True sys_container_windowed =
      Inr (Some widget1_in_container, sys_container_windowed)"
    by (simp add: MainWindow_updateDisplay_def Let_def sys_container_windowed_def
          widget1_in_container_def)
  show ?thesis
    using r1 m i r2 r3 r4 by simp
qed

section \<open>A display update that changes the mode\<close>












end
